theory Spec2Isabelle
  imports Main
begin

section \<open>The TypeScript gateway generator (generator/generator.go)\<close>

text \<open>
  The theory embeds the four functions of \<^verbatim>\<open>generator/generator.go\<close>:
  \<^verbatim>\<open>New\<close>, \<^verbatim>\<open>Generate\<close>, \<^verbatim>\<open>generateFile\<close> and
  \<^verbatim>\<open>generateFetchModule\<close>. Go strings are byte strings (\<open>string\<close>, one
  \<open>char\<close> per byte). Every function that can return a Go error returns a sum, \<open>Inl\<close> the
  error. The calls that leave the package and act on the outside (executing a template,
  \<^verbatim>\<open>os.Stat\<close>, \<^verbatim>\<open>os.ReadFile\<close>) are written to a trace, so that how often and
  on what they were made can be stated.
\<close>

subsection \<open>Errors\<close>

text \<open>
  \<^verbatim>\<open>errors.Wrap(err, msg)\<close> and \<^verbatim>\<open>errors.Wrapf\<close> of github.com/pkg/errors keep
  the cause and put the message in front of it; \<^verbatim>\<open>errors.Is\<close> walks the chain of
  causes.
\<close>

datatype error = ErrNotExist | ErrorString string | Wrap error string

fun Error :: "error \<Rightarrow> string" where
  "Error ErrNotExist = ''file does not exist''"
| "Error (ErrorString s) = s"
| "Error (Wrap err msg) = msg @ '': '' @ Error err"

fun errors_Is :: "error \<Rightarrow> error \<Rightarrow> bool" where
  "errors_Is (Wrap err msg) target = (Wrap err msg = target \<or> errors_Is err target)"
| "errors_Is err target = (err = target)"

subsection \<open>strings.TrimSpace\<close>

text \<open>
  \<^verbatim>\<open>strings.TrimSpace\<close> of the Go standard library removes the leading and the
  trailing white space of a string, white space being the runes of
  \<^verbatim>\<open>unicode.IsSpace\<close>: tab, line feed, vertical tab, form feed, carriage return,
  space, U+0085, U+00A0, U+1680, U+2000 to U+200A, U+2028, U+2029, U+202F, U+205F and
  U+3000. On a byte string a rune is its UTF-8 encoding; a byte that starts no valid
  encoding decodes to U+FFFD, which is no white space. \<open>spaceEncodings\<close> lists the
  encodings of the white-space runes.
\<close>

definition spaceEncodings :: "string list" where
  "spaceEncodings =
    [[CHR 0x09], [CHR 0x0A], [CHR 0x0B], [CHR 0x0C], [CHR 0x0D], [CHR 0x20],
     [CHR 0xC2, CHR 0x85], [CHR 0xC2, CHR 0xA0],
     [CHR 0xE1, CHR 0x9A, CHR 0x80],
     [CHR 0xE2, CHR 0x80, CHR 0x80], [CHR 0xE2, CHR 0x80, CHR 0x81],
     [CHR 0xE2, CHR 0x80, CHR 0x82], [CHR 0xE2, CHR 0x80, CHR 0x83],
     [CHR 0xE2, CHR 0x80, CHR 0x84], [CHR 0xE2, CHR 0x80, CHR 0x85],
     [CHR 0xE2, CHR 0x80, CHR 0x86], [CHR 0xE2, CHR 0x80, CHR 0x87],
     [CHR 0xE2, CHR 0x80, CHR 0x88], [CHR 0xE2, CHR 0x80, CHR 0x89],
     [CHR 0xE2, CHR 0x80, CHR 0x8A],
     [CHR 0xE2, CHR 0x80, CHR 0xA8], [CHR 0xE2, CHR 0x80, CHR 0xA9],
     [CHR 0xE2, CHR 0x80, CHR 0xAF], [CHR 0xE2, CHR 0x81, CHR 0x9F],
     [CHR 0xE3, CHR 0x80, CHR 0x80]]"

text \<open>The white-space rune a string starts with, and the one it ends with, if any.\<close>

definition leadingSpace :: "string \<Rightarrow> string option" where
  "leadingSpace s = find (\<lambda>e. take (length e) s = e) spaceEncodings"

definition trailingSpace :: "string \<Rightarrow> string option" where
  "trailingSpace s =
     find (\<lambda>e. length e \<le> length s \<and> drop (length s - length e) s = e) spaceEncodings"

function TrimLeft :: "string \<Rightarrow> string" where
  "TrimLeft s =
     (case leadingSpace s of
        None \<Rightarrow> s
      | Some e \<Rightarrow> TrimLeft (drop (length e) s))"
  by pat_completeness auto
termination
proof (relation "measure length")
  show "wf (measure length)" by simp
next
  fix s e
  assume "leadingSpace s = Some e"
  then have "e \<in> set spaceEncodings" and "take (length e) s = e"
    by (auto simp: leadingSpace_def find_Some_iff)
  then have "e \<noteq> []" and "take (length e) s = e"
    by (auto simp: spaceEncodings_def)
  then have "s \<noteq> []" by auto
  with \<open>e \<noteq> []\<close> show "(drop (length e) s, s) \<in> measure length" by simp
qed

function TrimRight :: "string \<Rightarrow> string" where
  "TrimRight s =
     (case trailingSpace s of
        None \<Rightarrow> s
      | Some e \<Rightarrow> TrimRight (take (length s - length e) s))"
  by pat_completeness auto
termination
proof (relation "measure length")
  show "wf (measure length)" by simp
next
  fix s e
  assume "trailingSpace s = Some e"
  then have "e \<in> set spaceEncodings" and "length e \<le> length s"
    by (auto simp: trailingSpace_def find_Some_iff)
  then have "e \<noteq> []" and "length e \<le> length s"
    by (auto simp: spaceEncodings_def)
  then show "(take (length s - length e) s, s) \<in> measure length"
    by (cases e) auto
qed

definition TrimSpace :: "string \<Rightarrow> string" where
  "TrimSpace s = TrimRight (TrimLeft s)"

subsection \<open>The File IR (package data)\<close>

text \<open>
  Modelled from the spec: the package \<^verbatim>\<open>data\<close> (the type \<^verbatim>\<open>data.File\<close> with
  its methods \<^verbatim>\<open>IsEmpty\<close> and \<^verbatim>\<open>Services.NeedsFetchModule\<close>) is not among
  the sources. The generator reads the fields \<^verbatim>\<open>Name\<close>, \<^verbatim>\<open>TSFileName\<close>,
  \<^verbatim>\<open>Services\<close> and writes \<^verbatim>\<open>EnableStylingCheck\<close>; the remaining fields follow
  the data model of the spec (a method has a name, a request and a response type and,
  if present, its HTTP binding; messages and enums are kept by their names).
\<close>

record HTTPBinding =
  PathTemplate :: string
  Verb :: string
  BodyField :: string

record Method =
  MethodName :: string
  Input :: string
  Output :: string
  HTTP :: "HTTPBinding option"

record Service =
  ServiceName :: string
  Methods :: "Method list"

record File =
  Name :: string
  TSFileName :: string
  Messages :: "string list"
  Enums :: "string list"
  Services :: "Service list"
  EnableStylingCheck :: bool

text \<open>
  Modelled from the spec: \<^verbatim>\<open>Services.NeedsFetchModule\<close> is missing from the sources.
  The spec: the shared helper is needed by a file that "contains at least one Service with
  at least one HTTP-bound Method".
\<close>

definition NeedsFetchModule :: "Service list \<Rightarrow> bool" where
  "NeedsFetchModule s = list_ex (\<lambda>svc. list_ex (\<lambda>m. HTTP m \<noteq> None) (Methods svc)) s"

text \<open>
  Modelled from the spec: \<^verbatim>\<open>File.IsEmpty\<close> is missing from the sources. The spec: a
  File IR is empty "iff it declares zero messages, zero enums, and zero services with at
  least one HTTP-bound method".
\<close>

definition IsEmpty :: "File \<Rightarrow> bool" where
  "IsEmpty f = (Messages f = [] \<and> Enums f = [] \<and> \<not> NeedsFetchModule (Services f))"

text \<open>The Go zero value \<^verbatim>\<open>data.File{}\<close>.\<close>

definition zeroFile :: File where
  "zeroFile = \<lparr>Name = [], TSFileName = [], Messages = [], Enums = [], Services = [],
     EnableStylingCheck = False\<rparr>"

subsection \<open>The registry (package registry) and the compiler's request\<close>

text \<open>
  Modelled from the spec: the package \<^verbatim>\<open>registry\<close> is not among the sources. The
  generator reads its fields \<^verbatim>\<open>FetchModuleDirectory\<close> and
  \<^verbatim>\<open>FetchModuleFilename\<close> and calls \<^verbatim>\<open>NewRegistry\<close>, \<^verbatim>\<open>Analyse\<close> and
  \<^verbatim>\<open>IsFileToGenerate\<close>. The request is known to the registry through
  \<^verbatim>\<open>Analyse\<close> only, so \<^verbatim>\<open>Analyse\<close> is what records the names the compiler
  designates as "to generate", and \<^verbatim>\<open>IsFileToGenerate\<close> is membership in those names.
  The descriptors of the request are read by the analysis only and stay abstract.
\<close>

typedecl FileDescriptorProto

record CodeGeneratorRequest =
  FileToGenerate :: "string list"
  ProtoFile :: "FileDescriptorProto list"

record Registry =
  FetchModuleDirectory :: string
  FetchModuleFilename :: string
  filesToGenerate :: "string list"

definition IsFileToGenerate :: "Registry \<Rightarrow> string \<Rightarrow> bool" where
  "IsFileToGenerate r name = (name \<in> set (filesToGenerate r))"

subsection \<open>What the generator calls\<close>

text \<open>
  A template (\<^verbatim>\<open>*template.Template\<close>) is its \<^verbatim>\<open>Execute\<close>: from the data to
  the text written to the buffer, or an error. The two templates come from
  \<^verbatim>\<open>GetTemplate\<close> and \<^verbatim>\<open>GetFetchModuleTemplate\<close>, whose file is not among the
  sources: they are parameters, as are \<^verbatim>\<open>registry.NewRegistry\<close>, the file system
  (\<^verbatim>\<open>os.Stat\<close> returns a \<^verbatim>\<open>FileInfo\<close> exactly when it returns no error) and
  \<^verbatim>\<open>filepath.Join\<close> and \<^verbatim>\<open>filepath.ToSlash\<close>, which depend on the platform.
\<close>

type_synonym Template = "File \<Rightarrow> error + string"

record FileInfo =
  Size :: nat
  IsDir :: bool

record Env =
  NewRegistry :: "(string \<rightharpoonup> string) \<Rightarrow> error + Registry"
  analyseFiles :: "Registry \<Rightarrow> CodeGeneratorRequest \<Rightarrow> error + File list"
  GetTemplate :: "Registry \<Rightarrow> Template"
  GetFetchModuleTemplate :: Template
  os_Stat :: "string \<Rightarrow> error + FileInfo"
  os_ReadFile :: "string \<Rightarrow> error + string"
  filepath_Join :: "string \<Rightarrow> string \<Rightarrow> string"
  filepath_ToSlash :: "string \<Rightarrow> string"

text \<open>
  Modelled from the spec: \<^verbatim>\<open>Registry.Analyse\<close> is missing from the sources. It
  returns one File IR per proto file of the request (the analysis itself is the
  parameter \<open>analyseFiles\<close>) or fails, and leaves the request's names to generate in the
  registry.
\<close>

definition Analyse :: "Env \<Rightarrow> Registry \<Rightarrow> CodeGeneratorRequest \<Rightarrow> error + Registry \<times> File list" where
  "Analyse env r req =
     (case analyseFiles env r req of
        Inl err \<Rightarrow> Inl err
      | Inr filesData \<Rightarrow> Inr (r\<lparr>filesToGenerate := FileToGenerate req\<rparr>, filesData))"

text \<open>
  The trace of a call: the executions of the file template and of the helper's template,
  each with the data it was given, and the calls of \<^verbatim>\<open>os.Stat\<close> and
  \<^verbatim>\<open>os.ReadFile\<close>, each with its path, in the order they are made.
\<close>

datatype event =
    ExecuteTemplate File
  | ExecuteFetchTemplate File
  | Stat string
  | ReadFile string

subsection \<open>The generator\<close>

record TypeScriptGRPCGatewayGenerator =
  Registry :: Registry
  EnableStylingCheck :: bool

record CodeGeneratorResponse_File =
  RespName :: string
  InsertionPoint :: "string option"
  Content :: string

record CodeGeneratorResponse =
  File :: "CodeGeneratorResponse_File list"

definition EnableStylingCheckOption :: string where
  "EnableStylingCheckOption = ''enable_styling_check''"

definition New :: "Env \<Rightarrow> (string \<rightharpoonup> string) \<Rightarrow> error + TypeScriptGRPCGatewayGenerator" where
  "New env paramsMap =
     (case NewRegistry env paramsMap of
        Inl err \<Rightarrow> Inl (Wrap err ''error instantiating a new registry'')
      | Inr registry \<Rightarrow>
          (let enableStylingCheck =
                 (case paramsMap EnableStylingCheckOption of
                    None \<Rightarrow> False
                  | Some enableStylingCheckVal \<Rightarrow> enableStylingCheckVal = ''true'')
           in Inr \<lparr>Registry = registry, EnableStylingCheck = enableStylingCheck\<rparr>))"

text \<open>
  \<^verbatim>\<open>generateFile\<close>: the placeholder for an empty file, the template otherwise
  (an error of \<^verbatim>\<open>Execute\<close> returns at once, what the buffer holds by then is dropped).
\<close>

definition generateFile ::
  "TypeScriptGRPCGatewayGenerator \<Rightarrow> File \<Rightarrow> Template
     \<Rightarrow> event list \<times> (error + CodeGeneratorResponse_File)" where
  "generateFile t fileData tmpl =
     (if IsEmpty fileData then
        ([], Inr \<lparr>RespName = TSFileName fileData, InsertionPoint = None,
                  Content = TrimSpace (''export default {}'' @ [CHR 0x0A])\<rparr>)
      else
        (case tmpl fileData of
           Inl err \<Rightarrow>
             ([ExecuteTemplate fileData],
              Inl (Wrap err (''error generating ts file for '' @ Name fileData)))
         | Inr w \<Rightarrow>
             ([ExecuteTemplate fileData],
              Inr \<lparr>RespName = TSFileName fileData, InsertionPoint = None,
                   Content = TrimSpace w\<rparr>)))"

text \<open>
  \<^verbatim>\<open>generateFetchModule\<close>: \<open>Inr None\<close> is the Go result \<^verbatim>\<open>nil, nil\<close>. The
  content read stays \<^verbatim>\<open>nil\<close>, the empty string, when \<^verbatim>\<open>os.Stat\<close> finds no file.
\<close>

definition generateFetchModule ::
  "Env \<Rightarrow> TypeScriptGRPCGatewayGenerator \<Rightarrow> Template
     \<Rightarrow> event list \<times> (error + CodeGeneratorResponse_File option)" where
  "generateFetchModule env t tmpl =
     (let fileName = filepath_ToSlash env
            (filepath_Join env (FetchModuleDirectory (Registry t))
               (FetchModuleFilename (Registry t)));
          fileData = zeroFile\<lparr>File.EnableStylingCheck := EnableStylingCheck t\<rparr>
      in case tmpl fileData of
           Inl err \<Rightarrow>
             ([ExecuteFetchTemplate fileData],
              Inl (Wrap err (''error generating fetch module at '' @ fileName)))
         | Inr w \<Rightarrow>
             (let content = TrimSpace w;
                  skipOrEmit = (\<lambda>originContent.
                     if originContent = content then Inr None
                     else Inr (Some \<lparr>RespName = fileName, InsertionPoint = None,
                                      Content = content\<rparr>))
              in case os_Stat env fileName of
                   Inl err \<Rightarrow>
                     if \<not> errors_Is err ErrNotExist then
                       ([ExecuteFetchTemplate fileData, Stat fileName], Inl err)
                     else
                       ([ExecuteFetchTemplate fileData, Stat fileName], skipOrEmit [])
                 | Inr stat \<Rightarrow>
                     (case os_ReadFile env fileName of
                        Inl err \<Rightarrow>
                          ([ExecuteFetchTemplate fileData, Stat fileName, ReadFile fileName],
                           Inl err)
                      | Inr originContent \<Rightarrow>
                          ([ExecuteFetchTemplate fileData, Stat fileName, ReadFile fileName],
                           skipOrEmit originContent))))"

text \<open>
  The loop of \<^verbatim>\<open>Generate\<close> over \<^verbatim>\<open>filesData\<close>, with the two variables it
  updates: \<^verbatim>\<open>resp.File\<close> and \<^verbatim>\<open>needToGenerateFetchModule\<close>.
\<close>

fun generateFiles ::
  "TypeScriptGRPCGatewayGenerator \<Rightarrow> Template \<Rightarrow> File list
     \<Rightarrow> CodeGeneratorResponse_File list \<Rightarrow> bool
     \<Rightarrow> event list \<times> (error + CodeGeneratorResponse_File list \<times> bool)" where
  "generateFiles t tmpl [] respFile needToGenerateFetchModule =
     ([], Inr (respFile, needToGenerateFetchModule))"
| "generateFiles t tmpl (fd # filesData) respFile needToGenerateFetchModule =
     (let fileData = fd\<lparr>File.EnableStylingCheck := EnableStylingCheck t\<rparr>
      in if \<not> IsFileToGenerate (Registry t) (Name fileData) then
           generateFiles t tmpl filesData respFile needToGenerateFetchModule
         else
           (case generateFile t fileData tmpl of
              (tr, Inl err) \<Rightarrow> (tr, Inl (Wrap err ''error generating file''))
            | (tr, Inr generated) \<Rightarrow>
                (case generateFiles t tmpl filesData (respFile @ [generated])
                        (needToGenerateFetchModule \<or> NeedsFetchModule (Services fileData)) of
                   (tr', res) \<Rightarrow> (tr @ tr', res))))"

text \<open>
  \<^verbatim>\<open>Generate\<close>. The generator holds a pointer to its registry, so the calls after
  \<^verbatim>\<open>Analyse\<close> see the registry as \<^verbatim>\<open>Analyse\<close> left it.
\<close>

definition Generate ::
  "Env \<Rightarrow> TypeScriptGRPCGatewayGenerator \<Rightarrow> CodeGeneratorRequest
     \<Rightarrow> event list \<times> (error + CodeGeneratorResponse)" where
  "Generate env t0 req =
     (case Analyse env (Registry t0) req of
        Inl err \<Rightarrow> ([], Inl (Wrap err ''error analysing proto files''))
      | Inr (registry, filesData) \<Rightarrow>
          (let t = t0\<lparr>Registry := registry\<rparr>;
               tmpl = GetTemplate env (Registry t)
           in case generateFiles t tmpl filesData [] False of
                (tr, Inl err) \<Rightarrow> (tr, Inl err)
              | (tr, Inr (respFile, needToGenerateFetchModule)) \<Rightarrow>
                  if needToGenerateFetchModule then
                    (case generateFetchModule env t (GetFetchModuleTemplate env) of
                       (tr', Inl err) \<Rightarrow>
                         (tr @ tr', Inl (Wrap err ''error generating fetch module''))
                     | (tr', Inr None) \<Rightarrow> (tr @ tr', Inr \<lparr>File = respFile\<rparr>)
                     | (tr', Inr (Some generatedFetch)) \<Rightarrow>
                         (tr @ tr', Inr \<lparr>File = respFile @ [generatedFetch]\<rparr>))
                  else (tr, Inr \<lparr>File = respFile\<rparr>)))"

subsection \<open>The words of the specification\<close>

text \<open>
  The File IRs "selected for generation" are those the loop of \<^verbatim>\<open>Generate\<close> does
  not skip; \<open>handed\<close> are the same files as \<^verbatim>\<open>generateFile\<close> receives them, the
  generator's flag written to each. \<open>needsFetchHelper\<close> is the specification's flag of
  the same name: some selected File IR has a service with an HTTP-bound method.
\<close>

definition selectedFiles :: "Registry \<Rightarrow> File list \<Rightarrow> File list" where
  "selectedFiles r filesData = filter (\<lambda>fd. IsFileToGenerate r (Name fd)) filesData"

definition needsFetchHelper :: "Registry \<Rightarrow> File list \<Rightarrow> bool" where
  "needsFetchHelper r filesData =
     list_ex (\<lambda>fd. NeedsFetchModule (Services fd)) (selectedFiles r filesData)"

definition withStylingCheck :: "TypeScriptGRPCGatewayGenerator \<Rightarrow> File \<Rightarrow> File" where
  "withStylingCheck t fd = fd\<lparr>File.EnableStylingCheck := EnableStylingCheck t\<rparr>"

definition handed :: "TypeScriptGRPCGatewayGenerator \<Rightarrow> Registry \<Rightarrow> File list \<Rightarrow> File list" where
  "handed t r filesData = map (withStylingCheck t) (selectedFiles r filesData)"

text \<open>The target path of the helper, and the data its template is executed on.\<close>

definition fetchModuleFileName :: "Env \<Rightarrow> Registry \<Rightarrow> string" where
  "fetchModuleFileName env r =
     filepath_ToSlash env (filepath_Join env (FetchModuleDirectory r) (FetchModuleFilename r))"

definition fetchModuleData :: "TypeScriptGRPCGatewayGenerator \<Rightarrow> File" where
  "fetchModuleData t = zeroFile\<lparr>File.EnableStylingCheck := EnableStylingCheck t\<rparr>"

text \<open>How often a trace executes the helper's template.\<close>

fun isFetchRender :: "event \<Rightarrow> bool" where
  "isFetchRender (ExecuteFetchTemplate d) = True"
| "isFetchRender ev = False"

definition fetchRenders :: "event list \<Rightarrow> nat" where
  "fetchRenders tr = length (filter isFetchRender tr)"

subsection \<open>A concrete run\<close>

text \<open>
  Three proto files: \<^verbatim>\<open>a.proto\<close> is a dependency only, \<^verbatim>\<open>b.proto\<close> has a
  service with an HTTP-bound method, \<^verbatim>\<open>e.proto\<close> declares nothing. A request holds
  \<^verbatim>\<open>a.proto\<close> and the files it asks for: \<open>exRequest\<close> asks for \<^verbatim>\<open>b.proto\<close> and
  \<^verbatim>\<open>e.proto\<close>, \<open>exRequestB\<close> and \<open>exRequestE\<close> for one of them. In \<open>exEnv\<close> no
  helper file exists yet; the other environments differ from it in one call each.
\<close>

definition exRegistry :: Registry where
  "exRegistry = \<lparr>FetchModuleDirectory = ''gen'', FetchModuleFilename = ''fetch.pb.ts'',
     filesToGenerate = []\<rparr>"

definition exFileA :: File where
  "exFileA = \<lparr>Name = ''a.proto'', TSFileName = ''a.pb.ts'', Messages = [''a.Foo''],
     Enums = [], Services = [], File.EnableStylingCheck = False\<rparr>"

definition exFileB :: File where
  "exFileB = \<lparr>Name = ''b.proto'', TSFileName = ''b.pb.ts'', Messages = [''b.Bar''],
     Enums = [],
     Services = [\<lparr>ServiceName = ''Greeter'',
       Methods = [\<lparr>MethodName = ''Hello'', Input = ''b.Bar'', Output = ''a.Foo'',
         HTTP = Some \<lparr>PathTemplate = ''/v1/hello'', Verb = ''POST'', BodyField = ''*''\<rparr>\<rparr>]\<rparr>],
     File.EnableStylingCheck = False\<rparr>"

definition exFileE :: File where
  "exFileE = \<lparr>Name = ''e.proto'', TSFileName = ''e.pb.ts'', Messages = [],
     Enums = [], Services = [], File.EnableStylingCheck = False\<rparr>"

definition exFiles :: "File list" where
  "exFiles = [exFileA, exFileB, exFileE]"

definition exEnv :: Env where
  "exEnv = \<lparr>NewRegistry = (\<lambda>paramsMap. Inr exRegistry),
     analyseFiles =
       (\<lambda>r req. Inr (filter (\<lambda>fd. Name fd \<in> set (''a.proto'' # FileToGenerate req)) exFiles)),
     GetTemplate = (\<lambda>r fd. Inr ('' // '' @ Name fd @ [CHR 0x0A])),
     GetFetchModuleTemplate = (\<lambda>fd. Inr (''export {}'' @ [CHR 0x0A])),
     os_Stat = (\<lambda>p. Inl (Wrap ErrNotExist (''stat '' @ p))),
     os_ReadFile = (\<lambda>p. Inl (Wrap ErrNotExist (''open '' @ p))),
     filepath_Join = (\<lambda>d f. d @ ''/'' @ f),
     filepath_ToSlash = (\<lambda>p. p)\<rparr>"

definition exGenerator :: TypeScriptGRPCGatewayGenerator where
  "exGenerator = \<lparr>Registry = exRegistry, EnableStylingCheck = True\<rparr>"

text \<open>The same options, another output directory.\<close>

definition exGenerator2 :: TypeScriptGRPCGatewayGenerator where
  "exGenerator2 =
     \<lparr>Registry = exRegistry\<lparr>FetchModuleDirectory := ''out''\<rparr>, EnableStylingCheck = True\<rparr>"

definition exRequest :: CodeGeneratorRequest where
  "exRequest = \<lparr>FileToGenerate = [''b.proto'', ''e.proto''], ProtoFile = []\<rparr>"

definition exRequestB :: CodeGeneratorRequest where
  "exRequestB = \<lparr>FileToGenerate = [''b.proto''], ProtoFile = []\<rparr>"

definition exRequestE :: CodeGeneratorRequest where
  "exRequestE = \<lparr>FileToGenerate = [''e.proto''], ProtoFile = []\<rparr>"

definition exAnalysed :: Registry where
  "exAnalysed = exRegistry\<lparr>filesToGenerate := [''b.proto'', ''e.proto'']\<rparr>"

definition exResponse :: CodeGeneratorResponse where
  "exResponse = \<lparr>File = [
     \<lparr>RespName = ''b.pb.ts'', InsertionPoint = None, Content = ''// b.proto''\<rparr>,
     \<lparr>RespName = ''e.pb.ts'', InsertionPoint = None, Content = ''export default {}''\<rparr>,
     \<lparr>RespName = ''gen/fetch.pb.ts'', InsertionPoint = None, Content = ''export {}''\<rparr>]\<rparr>"

text \<open>The helper file exists and holds what the template renders, trimmed.\<close>

definition exEnvSame :: Env where
  "exEnvSame = exEnv\<lparr>os_Stat := (\<lambda>p. Inr \<lparr>Size = 9, IsDir = False\<rparr>),
     os_ReadFile := (\<lambda>p. Inr ''export {}'')\<rparr>"

text \<open>The helper file exists and ends in a line feed the trimmed rendering has not.\<close>

definition exEnvDiff :: Env where
  "exEnvDiff = exEnv\<lparr>os_Stat := (\<lambda>p. Inr \<lparr>Size = 10, IsDir = False\<rparr>),
     os_ReadFile := (\<lambda>p. Inr (''export {}'' @ [CHR 0x0A]))\<rparr>"

text \<open>The helper file is there for \<^verbatim>\<open>os.Stat\<close> and gone for \<^verbatim>\<open>os.ReadFile\<close>.\<close>

definition exEnvGone :: Env where
  "exEnvGone = exEnv\<lparr>os_Stat := (\<lambda>p. Inr \<lparr>Size = 9, IsDir = False\<rparr>)\<rparr>"

text \<open>\<^verbatim>\<open>os.Stat\<close> is refused.\<close>

definition exEnvDenied :: Env where
  "exEnvDenied =
     exEnv\<lparr>os_Stat := (\<lambda>p. Inl (Wrap (ErrorString ''permission denied'') (''stat '' @ p)))\<rparr>"

text \<open>The file template fails.\<close>

definition exEnvBroken :: Env where
  "exEnvBroken =
     exEnv\<lparr>GetTemplate := (\<lambda>r fd. Inl (ErrorString ''template: no such function''))\<rparr>"

text \<open>The helper's template renders white space only.\<close>

definition exEnvBlank :: Env where
  "exEnvBlank = exEnv\<lparr>GetFetchModuleTemplate := (\<lambda>fd. Inr ('' '' @ [CHR 0x0A]))\<rparr>"

section \<open>Properties\<close>

subsection \<open>What TrimSpace removes\<close>

lemma leadingSpace_Some:
  "leadingSpace s = Some e \<Longrightarrow> e \<in> set spaceEncodings \<and> s = e @ drop (length e) s"
  by (auto simp: leadingSpace_def find_Some_iff) (metis append_take_drop_id)

lemma trailingSpace_Some:
  "trailingSpace s = Some e \<Longrightarrow>
     e \<in> set spaceEncodings \<and> s = take (length s - length e) s @ e"
  by (auto simp: trailingSpace_def find_Some_iff) (metis append_take_drop_id)

lemma TrimLeft_decomp: "\<exists>ls. set ls \<subseteq> set spaceEncodings \<and> s = concat ls @ TrimLeft s"
proof (induction s rule: TrimLeft.induct)
  case (1 s)
  show ?case
  proof (cases "leadingSpace s")
    case None
    then have "s = concat [] @ TrimLeft s" by simp
    then show ?thesis by (metis empty_set empty_subsetI)
  next
    case (Some e)
    from 1[OF Some] obtain ls where ls: "set ls \<subseteq> set spaceEncodings"
      "drop (length e) s = concat ls @ TrimLeft (drop (length e) s)" by blast
    from leadingSpace_Some[OF Some] have e: "e \<in> set spaceEncodings" "s = e @ drop (length e) s" by auto
    have "TrimLeft s = TrimLeft (drop (length e) s)" using Some by simp
    with ls e have "set (e # ls) \<subseteq> set spaceEncodings \<and> s = concat (e # ls) @ TrimLeft s"
      by (metis append.assoc concat.simps(2) insert_subset list.simps(15))
    then show ?thesis by blast
  qed
qed

lemma TrimRight_decomp: "\<exists>rs. set rs \<subseteq> set spaceEncodings \<and> s = TrimRight s @ concat rs"
proof (induction s rule: TrimRight.induct)
  case (1 s)
  show ?case
  proof (cases "trailingSpace s")
    case None
    then have "s = TrimRight s @ concat []" by simp
    then show ?thesis by (metis empty_set empty_subsetI)
  next
    case (Some e)
    let ?s' = "take (length s - length e) s"
    from 1[OF Some] obtain rs where rs: "set rs \<subseteq> set spaceEncodings"
      "?s' = TrimRight ?s' @ concat rs" by blast
    from trailingSpace_Some[OF Some] have e: "e \<in> set spaceEncodings" "s = ?s' @ e" by auto
    have t: "TrimRight s = TrimRight ?s'" using Some by simp
    have "s = TrimRight s @ concat (rs @ [e])"
      using rs(2) e(2) t by (metis append.assoc append.right_neutral concat.simps concat_append)
    moreover have "set (rs @ [e]) \<subseteq> set spaceEncodings" using rs(1) e(1) by simp
    ultimately show ?thesis by blast
  qed
qed

lemma leadingSpace_TrimLeft: "leadingSpace (TrimLeft s) = None"
proof (induction s rule: TrimLeft.induct)
  case (1 s)
  then show ?case by (cases "leadingSpace s") simp_all
qed

lemma trailingSpace_TrimRight: "trailingSpace (TrimRight s) = None"
proof (induction s rule: TrimRight.induct)
  case (1 s)
  then show ?case by (cases "trailingSpace s") simp_all
qed

lemma leadingSpace_prefix:
  assumes "leadingSpace (p @ q) = None"
  shows "leadingSpace p = None"
proof -
  have "take (length e) p \<noteq> e" if "e \<in> set spaceEncodings" for e
  proof
    assume a: "take (length e) p = e"
    then have "length e \<le> length p" by (metis length_take min.cobounded2 min.commute)
    then have "take (length e) (p @ q) = e" using a by simp
    with a that assms show False by (auto simp: leadingSpace_def find_None_iff)
  qed
  then show ?thesis by (auto simp: leadingSpace_def find_None_iff)
qed

lemma TrimSpace_spec:
  "\<exists>ls rs. set ls \<subseteq> set spaceEncodings \<and> set rs \<subseteq> set spaceEncodings \<and>
     s = concat ls @ TrimSpace s @ concat rs \<and>
     leadingSpace (TrimSpace s) = None \<and> trailingSpace (TrimSpace s) = None"
proof -
  obtain ls where ls: "set ls \<subseteq> set spaceEncodings" "s = concat ls @ TrimLeft s"
    using TrimLeft_decomp by blast
  obtain rs where rs: "set rs \<subseteq> set spaceEncodings" "TrimLeft s = TrimRight (TrimLeft s) @ concat rs"
    using TrimRight_decomp by blast
  have "leadingSpace (TrimRight (TrimLeft s) @ concat rs) = None"
    using rs(2) leadingSpace_TrimLeft[of s] by simp
  then have "leadingSpace (TrimSpace s) = None"
    unfolding TrimSpace_def by (rule leadingSpace_prefix)
  moreover have "trailingSpace (TrimSpace s) = None"
    unfolding TrimSpace_def by (rule trailingSpace_TrimRight)
  moreover have "s = concat ls @ TrimSpace s @ concat rs"
    using ls(2) rs(2) unfolding TrimSpace_def by simp
  ultimately show ?thesis using ls(1) rs(1) by blast
qed

lemma TrimSpace_placeholder: "TrimSpace (''export default {}'' @ [CHR 0x0A]) = ''export default {}''"
  by code_simp

subsection \<open>One file, and the loop over the files\<close>

lemma withStylingCheck_sel [simp]:
  "Name (withStylingCheck t fd) = Name fd"
  "TSFileName (withStylingCheck t fd) = TSFileName fd"
  "Services (withStylingCheck t fd) = Services fd"
  "IsEmpty (withStylingCheck t fd) = IsEmpty fd"
  "File.EnableStylingCheck (withStylingCheck t fd) = EnableStylingCheck t"
  by (simp_all add: withStylingCheck_def IsEmpty_def)

lemma generateFile_trace:
  "fst (generateFile t fd tmpl) = (if IsEmpty fd then [] else [ExecuteTemplate fd])"
  by (simp add: generateFile_def split: sum.splits)

lemma generateFile_Inr:
  "snd (generateFile t fd tmpl) = Inr g \<longleftrightarrow>
     (IsEmpty fd \<and> g = \<lparr>RespName = TSFileName fd, InsertionPoint = None, Content = ''export default {}''\<rparr>) \<or>
     (\<not> IsEmpty fd \<and> (\<exists>w. tmpl fd = Inr w \<and>
        g = \<lparr>RespName = TSFileName fd, InsertionPoint = None, Content = TrimSpace w\<rparr>))"
  by (auto simp: generateFile_def TrimSpace_placeholder[simplified] split: sum.splits)

lemma generateFile_Inl:
  "snd (generateFile t fd tmpl) = Inl err \<longleftrightarrow>
     \<not> IsEmpty fd \<and> (\<exists>e. tmpl fd = Inl e \<and> err = Wrap e (''error generating ts file for '' @ Name fd))"
  by (auto simp: generateFile_def split: sum.splits)

lemma generateFiles_Inr:
  "generateFiles t tmpl fds acc need = (tr, Inr (files, need')) \<Longrightarrow>
     \<exists>gs. files = acc @ gs \<and>
       map Inr gs = map (\<lambda>fd. snd (generateFile t fd tmpl)) (map (withStylingCheck t) (selectedFiles (Registry t) fds)) \<and>
       need' = (need \<or> needsFetchHelper (Registry t) fds) \<and>
       tr = concat (map (\<lambda>fd. fst (generateFile t fd tmpl)) (map (withStylingCheck t) (selectedFiles (Registry t) fds)))"
proof (induction fds arbitrary: acc need tr)
  case Nil
  then show ?case by (simp add: selectedFiles_def needsFetchHelper_def)
next
  case (Cons fd fds)
  show ?case
  proof (cases "IsFileToGenerate (Registry t) (Name fd)")
    case False
    with Cons.prems have "generateFiles t tmpl fds acc need = (tr, Inr (files, need'))"
      by simp
    from Cons.IH[OF this] False show ?thesis
      by (simp add: selectedFiles_def needsFetchHelper_def)
  next
    case True
    from Cons.prems True obtain tr1 g tr2 where
      g: "generateFile t (withStylingCheck t fd) tmpl = (tr1, Inr g)" and
      rest: "generateFiles t tmpl fds (acc @ [g]) (need \<or> NeedsFetchModule (Services fd)) = (tr2, Inr (files, need'))" and
      tr: "tr = tr1 @ tr2"
      by (auto simp: withStylingCheck_def Let_def split: prod.splits sum.splits)
    from Cons.IH[OF rest] obtain gs where gs: "files = (acc @ [g]) @ gs"
       "map Inr gs = map (\<lambda>fd. snd (generateFile t fd tmpl)) (map (withStylingCheck t) (selectedFiles (Registry t) fds))"
       "need' = ((need \<or> NeedsFetchModule (Services fd)) \<or> needsFetchHelper (Registry t) fds)"
       "tr2 = concat (map (\<lambda>fd. fst (generateFile t fd tmpl)) (map (withStylingCheck t) (selectedFiles (Registry t) fds)))"
      by blast
    have "files = acc @ (g # gs)" using gs(1) by simp
    moreover have "map Inr (g # gs) = map (\<lambda>fd. snd (generateFile t fd tmpl)) (map (withStylingCheck t) (selectedFiles (Registry t) (fd # fds)))"
      using gs(2) g True by (simp add: selectedFiles_def)
    moreover have "need' = (need \<or> needsFetchHelper (Registry t) (fd # fds))"
      using gs(3) True by (auto simp: selectedFiles_def needsFetchHelper_def)
    moreover have "tr = concat (map (\<lambda>fd. fst (generateFile t fd tmpl)) (map (withStylingCheck t) (selectedFiles (Registry t) (fd # fds))))"
      using gs(4) tr g True by (simp add: selectedFiles_def)
    ultimately show ?thesis by blast
  qed
qed

lemma generateFiles_Inl:
  "generateFiles t tmpl fds acc need = (tr, Inl err) \<Longrightarrow>
     \<exists>pre fd post e. map (withStylingCheck t) (selectedFiles (Registry t) fds) = pre @ fd # post \<and>
       (\<forall>x \<in> set pre. \<exists>g. snd (generateFile t x tmpl) = Inr g) \<and>
       snd (generateFile t fd tmpl) = Inl e \<and> err = Wrap e ''error generating file'' \<and>
       tr = concat (map (\<lambda>fd. fst (generateFile t fd tmpl)) (pre @ [fd]))"
proof (induction fds arbitrary: acc need tr)
  case Nil
  then show ?case by simp
next
  case (Cons fd fds)
  show ?case
  proof (cases "IsFileToGenerate (Registry t) (Name fd)")
    case False
    with Cons.prems have "generateFiles t tmpl fds acc need = (tr, Inl err)"
      by simp
    from Cons.IH[OF this] False show ?thesis
      by (simp add: selectedFiles_def)
  next
    case True
    obtain tr1 res where g: "generateFile t (withStylingCheck t fd) tmpl = (tr1, res)"
      by (cases "generateFile t (withStylingCheck t fd) tmpl")
    show ?thesis
    proof (cases res)
      case (Inl e)
      with Cons.prems True g have "err = Wrap e ''error generating file''" "tr = tr1"
        by (auto simp: withStylingCheck_def Let_def)
      with g Inl True have
        "map (withStylingCheck t) (selectedFiles (Registry t) (fd # fds)) = [] @ withStylingCheck t fd # map (withStylingCheck t) (selectedFiles (Registry t) fds) \<and>
         (\<forall>x \<in> set []. \<exists>g. snd (generateFile t x tmpl) = Inr g) \<and>
         snd (generateFile t (withStylingCheck t fd) tmpl) = Inl e \<and> err = Wrap e ''error generating file'' \<and>
         tr = concat (map (\<lambda>fd. fst (generateFile t fd tmpl)) ([] @ [withStylingCheck t fd]))"
        by (simp add: selectedFiles_def)
      then show ?thesis by blast
    next
      case (Inr gen)
      with Cons.prems True g obtain tr2 where
        rest: "generateFiles t tmpl fds (acc @ [gen]) (need \<or> NeedsFetchModule (Services fd)) = (tr2, Inl err)"
        and tr: "tr = tr1 @ tr2"
        by (auto simp: withStylingCheck_def Let_def split: prod.splits)
      from Cons.IH[OF rest] obtain pre fd' post e where
        p: "map (withStylingCheck t) (selectedFiles (Registry t) fds) = pre @ fd' # post"
           "\<forall>x \<in> set pre. \<exists>g. snd (generateFile t x tmpl) = Inr g"
           "snd (generateFile t fd' tmpl) = Inl e" "err = Wrap e ''error generating file''"
           "tr2 = concat (map (\<lambda>fd. fst (generateFile t fd tmpl)) (pre @ [fd']))"
        by blast
      have "map (withStylingCheck t) (selectedFiles (Registry t) (fd # fds)) = (withStylingCheck t fd # pre) @ fd' # post \<and>
         (\<forall>x \<in> set (withStylingCheck t fd # pre). \<exists>g. snd (generateFile t x tmpl) = Inr g) \<and>
         snd (generateFile t fd' tmpl) = Inl e \<and> err = Wrap e ''error generating file'' \<and>
         tr = concat (map (\<lambda>fd. fst (generateFile t fd tmpl)) ((withStylingCheck t fd # pre) @ [fd']))"
        using p tr g Inr True by (simp add: selectedFiles_def)
      then show ?thesis by blast
    qed
  qed
qed

lemma generateFile_indep: "generateFile t fd tmpl = generateFile t' fd tmpl"
  by (simp add: generateFile_def)

lemma withStylingCheck_Registry [simp]:
  "withStylingCheck (t\<lparr>Registry := r\<rparr>) = withStylingCheck t"
  by (rule ext) (simp add: withStylingCheck_def)

subsection \<open>The helper module\<close>

lemma Analyse_Inr:
  "Analyse env r0 req = Inr (r, fds) \<longleftrightarrow>
     analyseFiles env r0 req = Inr fds \<and> r = r0\<lparr>filesToGenerate := FileToGenerate req\<rparr>"
  by (auto simp: Analyse_def split: sum.splits)

lemma IsFileToGenerate_Analyse:
  "Analyse env r0 req = Inr (r, fds) \<Longrightarrow>
     IsFileToGenerate r name \<longleftrightarrow> name \<in> set (FileToGenerate req)"
  by (simp add: Analyse_Inr IsFileToGenerate_def)

lemma generateFetchModule_fail_render:
  "tmpl (fetchModuleData t) = Inl e \<Longrightarrow>
     generateFetchModule env t tmpl =
       ([ExecuteFetchTemplate (fetchModuleData t)],
        Inl (Wrap e (''error generating fetch module at '' @ fetchModuleFileName env (Registry t))))"
  by (simp add: generateFetchModule_def fetchModuleData_def fetchModuleFileName_def Let_def)

lemma generateFetchModule_fail_stat:
  "tmpl (fetchModuleData t) = Inr w \<Longrightarrow>
   os_Stat env (fetchModuleFileName env (Registry t)) = Inl err \<Longrightarrow>
   \<not> errors_Is err ErrNotExist \<Longrightarrow>
     generateFetchModule env t tmpl =
       ([ExecuteFetchTemplate (fetchModuleData t), Stat (fetchModuleFileName env (Registry t))],
        Inl err)"
  by (simp add: generateFetchModule_def fetchModuleData_def fetchModuleFileName_def Let_def)

lemma generateFetchModule_absent:
  "tmpl (fetchModuleData t) = Inr w \<Longrightarrow>
   os_Stat env (fetchModuleFileName env (Registry t)) = Inl err \<Longrightarrow>
   errors_Is err ErrNotExist \<Longrightarrow>
     generateFetchModule env t tmpl =
       ([ExecuteFetchTemplate (fetchModuleData t), Stat (fetchModuleFileName env (Registry t))],
        if [] = TrimSpace w then Inr None
        else Inr (Some \<lparr>RespName = fetchModuleFileName env (Registry t), InsertionPoint = None,
                        Content = TrimSpace w\<rparr>))"
  by (simp add: generateFetchModule_def fetchModuleData_def fetchModuleFileName_def Let_def)

lemma generateFetchModule_fail_read:
  "tmpl (fetchModuleData t) = Inr w \<Longrightarrow>
   os_Stat env (fetchModuleFileName env (Registry t)) = Inr stat \<Longrightarrow>
   os_ReadFile env (fetchModuleFileName env (Registry t)) = Inl err \<Longrightarrow>
     generateFetchModule env t tmpl =
       ([ExecuteFetchTemplate (fetchModuleData t), Stat (fetchModuleFileName env (Registry t)),
         ReadFile (fetchModuleFileName env (Registry t))],
        Inl err)"
  by (simp add: generateFetchModule_def fetchModuleData_def fetchModuleFileName_def Let_def)

lemma generateFetchModule_present:
  "tmpl (fetchModuleData t) = Inr w \<Longrightarrow>
   os_Stat env (fetchModuleFileName env (Registry t)) = Inr stat \<Longrightarrow>
   os_ReadFile env (fetchModuleFileName env (Registry t)) = Inr originContent \<Longrightarrow>
     generateFetchModule env t tmpl =
       ([ExecuteFetchTemplate (fetchModuleData t), Stat (fetchModuleFileName env (Registry t)),
         ReadFile (fetchModuleFileName env (Registry t))],
        if originContent = TrimSpace w then Inr None
        else Inr (Some \<lparr>RespName = fetchModuleFileName env (Registry t), InsertionPoint = None,
                        Content = TrimSpace w\<rparr>))"
  by (simp add: generateFetchModule_def fetchModuleData_def fetchModuleFileName_def Let_def)

lemma generateFetchModule_trace:
  "\<exists>rest. fst (generateFetchModule env t tmpl) = ExecuteFetchTemplate (fetchModuleData t) # rest \<and>
     set rest \<subseteq> {Stat (fetchModuleFileName env (Registry t)),
                   ReadFile (fetchModuleFileName env (Registry t))}"
  by (auto simp: generateFetchModule_def fetchModuleData_def fetchModuleFileName_def Let_def
           split: sum.splits)

lemma generateFetchModule_Some:
  "snd (generateFetchModule env t tmpl) = Inr (Some h) \<Longrightarrow>
     \<exists>w. tmpl (fetchModuleData t) = Inr w \<and>
       h = \<lparr>RespName = fetchModuleFileName env (Registry t), InsertionPoint = None,
            Content = TrimSpace w\<rparr>"
  by (auto simp: generateFetchModule_def fetchModuleData_def fetchModuleFileName_def Let_def
           split: sum.splits if_splits)

lemma generateFetchModule_Registry:
  "FetchModuleDirectory r = FetchModuleDirectory (Registry t) \<Longrightarrow>
   FetchModuleFilename r = FetchModuleFilename (Registry t) \<Longrightarrow>
     generateFetchModule env (t\<lparr>Registry := r\<rparr>) tmpl = generateFetchModule env t tmpl"
  by (simp add: generateFetchModule_def)

lemma generateFetchModule_Analyse:
  "Analyse env (Registry t) req = Inr (r, fds) \<Longrightarrow>
     generateFetchModule env (t\<lparr>Registry := r\<rparr>) tmpl = generateFetchModule env t tmpl"
  by (rule generateFetchModule_Registry) (simp_all add: Analyse_Inr)

subsection \<open>A whole run\<close>

lemma Generate_Analyse_Inl:
  "Analyse env (Registry t0) req = Inl err \<Longrightarrow>
     Generate env t0 req = ([], Inl (Wrap err ''error analysing proto files''))"
  by (simp add: Generate_def)

lemma Generate_unfold:
  "Analyse env (Registry t0) req = Inr (r, fds) \<Longrightarrow>
   generateFiles (t0\<lparr>Registry := r\<rparr>) (GetTemplate env r) fds [] False = (tr, res) \<Longrightarrow>
   Generate env t0 req =
     (case res of
        Inl err \<Rightarrow> (tr, Inl err)
      | Inr (respFile, need) \<Rightarrow>
          if need then
            (case generateFetchModule env t0 (GetFetchModuleTemplate env) of
               (tr', Inl err) \<Rightarrow> (tr @ tr', Inl (Wrap err ''error generating fetch module''))
             | (tr', Inr None) \<Rightarrow> (tr @ tr', Inr \<lparr>File = respFile\<rparr>)
             | (tr', Inr (Some g)) \<Rightarrow> (tr @ tr', Inr \<lparr>File = respFile @ [g]\<rparr>))
          else (tr, Inr \<lparr>File = respFile\<rparr>))"
  by (simp add: Generate_def generateFetchModule_Analyse split: sum.splits prod.splits)

lemma generateFiles_total:
  "\<exists>tr res. generateFiles t tmpl fds acc need = (tr, res)"
  by (cases "generateFiles t tmpl fds acc need") simp

lemma generateFiles_trace_no_fetch:
  assumes "generateFiles t tmpl fds acc need = (tr, res)"
  shows "\<forall>ev \<in> set tr. \<exists>fd \<in> set (handed t (Registry t) fds). \<not> IsEmpty fd \<and> ev = ExecuteTemplate fd"
proof (cases res)
  case (Inl err)
  with assms generateFiles_Inl[of t tmpl fds acc need tr err]
  obtain pre fd post e where
    p: "handed t (Registry t) fds = pre @ fd # post"
       "tr = concat (map (\<lambda>fd. fst (generateFile t fd tmpl)) (pre @ [fd]))"
    unfolding handed_def by blast
  show ?thesis unfolding p
    by (auto simp: generateFile_trace split: if_splits)
next
  case (Inr p)
  obtain files need' where "p = (files, need')" by (cases p)
  with Inr assms generateFiles_Inr[of t tmpl fds acc need tr files need']
  have "tr = concat (map (\<lambda>fd. fst (generateFile t fd tmpl)) (handed t (Registry t) fds))"
    unfolding handed_def by blast
  then show ?thesis
    by (auto simp: generateFile_trace split: if_splits)
qed

lemma handed_flag:
  "fd \<in> set (handed t0 r fds) \<Longrightarrow> File.EnableStylingCheck fd = EnableStylingCheck t0"
  by (auto simp: handed_def)

lemma fetchRenders_append [simp]: "fetchRenders (a @ b) = fetchRenders a + fetchRenders b"
  by (simp add: fetchRenders_def)

lemma fetchRenders_files:
  "\<forall>ev \<in> set tr. \<exists>fd. ev = ExecuteTemplate fd \<Longrightarrow> fetchRenders tr = 0"
  by (induction tr) (auto simp: fetchRenders_def)

lemma fetchRenders_generateFetchModule:
  "fetchRenders (fst (generateFetchModule env t tmpl)) = 1"
proof -
  obtain rest where r: "fst (generateFetchModule env t tmpl) = ExecuteFetchTemplate (fetchModuleData t) # rest"
    "set rest \<subseteq> {Stat (fetchModuleFileName env (Registry t)), ReadFile (fetchModuleFileName env (Registry t))}"
    using generateFetchModule_trace by blast
  have "filter isFetchRender rest = []"
    using r(2) by (induction rest) auto
  then show ?thesis by (simp add: r(1) fetchRenders_def)
qed

lemma Generate_trace:
  "\<exists>tr1 tr2. fst (Generate env t0 req) = tr1 @ tr2 \<and>
     (\<forall>ev \<in> set tr1. \<exists>fd. \<not> IsEmpty fd \<and> File.EnableStylingCheck fd = EnableStylingCheck t0 \<and>
         ev = ExecuteTemplate fd) \<and>
     (tr2 = [] \<or> tr2 = fst (generateFetchModule env t0 (GetFetchModuleTemplate env)))"
proof (cases "Analyse env (Registry t0) req")
  case (Inl err)
  then show ?thesis by (simp add: Generate_Analyse_Inl)
next
  case (Inr p)
  obtain r fds where p: "p = (r, fds)" by (cases p)
  let ?t = "t0\<lparr>Registry := r\<rparr>"
  obtain tr res where g: "generateFiles ?t (GetTemplate env r) fds [] False = (tr, res)"
    using generateFiles_total by blast
  have tr: "\<forall>ev \<in> set tr. \<exists>fd. \<not> IsEmpty fd \<and> File.EnableStylingCheck fd = EnableStylingCheck t0 \<and>
         ev = ExecuteTemplate fd"
    using generateFiles_trace_no_fetch[OF g] by (fastforce dest: handed_flag)
  have "fst (Generate env t0 req) = tr \<or>
        fst (Generate env t0 req) = tr @ fst (generateFetchModule env t0 (GetFetchModuleTemplate env))"
    using Generate_unfold[OF Inr[unfolded p] g]
    by (auto split: sum.splits prod.splits if_splits option.splits)
  then show ?thesis using tr
    by (metis append_Nil2)
qed

lemma Generate_Inr:
  assumes "snd (Generate env t0 req) = Inr resp"
  shows "\<exists>r fds gs. Analyse env (Registry t0) req = Inr (r, fds) \<and>
     map Inr gs = map (\<lambda>fd. snd (generateFile t0 fd (GetTemplate env r))) (handed t0 r fds) \<and>
     File resp = gs @ (if needsFetchHelper r fds
                       then (case snd (generateFetchModule env t0 (GetFetchModuleTemplate env)) of
                               Inr (Some h) \<Rightarrow> [h] | _ \<Rightarrow> [])
                       else []) \<and>
     fst (Generate env t0 req) =
       concat (map (\<lambda>fd. fst (generateFile t0 fd (GetTemplate env r))) (handed t0 r fds)) @
       (if needsFetchHelper r fds then fst (generateFetchModule env t0 (GetFetchModuleTemplate env))
        else [])"
proof (cases "Analyse env (Registry t0) req")
  case (Inl err)
  with assms show ?thesis by (simp add: Generate_Analyse_Inl)
next
  case (Inr p)
  obtain r fds where p: "p = (r, fds)" by (cases p)
  let ?t = "t0\<lparr>Registry := r\<rparr>"
  obtain tr res where g: "generateFiles ?t (GetTemplate env r) fds [] False = (tr, res)"
    using generateFiles_total by blast
  note u = Generate_unfold[OF Inr[unfolded p] g]
  from assms u obtain files need where res: "res = Inr (files, need)"
    by (cases res) auto
  from generateFiles_Inr[OF g[unfolded res]] obtain gs where gs:
    "files = gs"
    "map Inr gs = map (\<lambda>fd. snd (generateFile ?t fd (GetTemplate env r))) (handed t0 r fds)"
    "need = needsFetchHelper r fds"
    "tr = concat (map (\<lambda>fd. fst (generateFile ?t fd (GetTemplate env r))) (handed t0 r fds))"
    by (auto simp: handed_def)
  have gf: "generateFile ?t = generateFile t0"
    by (intro ext) (rule generateFile_indep)
  have "File resp = gs @ (if needsFetchHelper r fds
                       then (case snd (generateFetchModule env t0 (GetFetchModuleTemplate env)) of
                               Inr (Some h) \<Rightarrow> [h] | _ \<Rightarrow> [])
                       else [])"
    using assms u res gs(1,3)
    by (auto split: prod.splits sum.splits option.splits if_splits)
  moreover have "fst (Generate env t0 req) = tr @
       (if needsFetchHelper r fds then fst (generateFetchModule env t0 (GetFetchModuleTemplate env))
        else [])"
    using assms u res gs(3)
    by (auto split: prod.splits sum.splits option.splits if_splits)
  ultimately show ?thesis
    using Inr p gs(2,4) unfolding gf by blast
qed

lemma needsFetchHelper_iff:
  "needsFetchHelper r fds \<longleftrightarrow>
     (\<exists>fd \<in> set fds. IsFileToGenerate r (Name fd) \<and>
        (\<exists>svc \<in> set (Services fd). \<exists>m \<in> set (Methods svc). HTTP m \<noteq> None))"
  by (auto simp: needsFetchHelper_def selectedFiles_def NeedsFetchModule_def list_ex_iff)

lemma generateFiles_ok:
  assumes "\<forall>fd \<in> set (handed t (Registry t) fds). \<exists>g. snd (generateFile t fd tmpl) = Inr g"
  shows "\<exists>tr gs. generateFiles t tmpl fds [] False = (tr, Inr (gs, needsFetchHelper (Registry t) fds)) \<and>
           map Inr gs = map (\<lambda>fd. snd (generateFile t fd tmpl)) (handed t (Registry t) fds)"
proof -
  obtain tr res where g: "generateFiles t tmpl fds [] False = (tr, res)"
    using generateFiles_total by blast
  show ?thesis
  proof (cases res)
    case (Inl err)
    from generateFiles_Inl[OF g[unfolded Inl]] obtain pre fd post e where
      "handed t (Registry t) fds = pre @ fd # post" "snd (generateFile t fd tmpl) = Inl e"
      unfolding handed_def by blast
    with assms show ?thesis by fastforce
  next
    case (Inr p)
    obtain files need where p: "p = (files, need)" by (cases p)
    from generateFiles_Inr[OF g[unfolded Inr p]] g Inr p show ?thesis
      by (auto simp: handed_def)
  qed
qed

lemma Generate_reaches_helper:
  assumes "Analyse env (Registry t0) req = Inr (r, fds)"
    and "\<forall>fd \<in> set (handed t0 r fds). \<exists>g. snd (generateFile t0 fd (GetTemplate env r)) = Inr g"
  shows "\<exists>gs. map Inr gs = map (\<lambda>fd. snd (generateFile t0 fd (GetTemplate env r))) (handed t0 r fds) \<and>
     snd (Generate env t0 req) =
       (if needsFetchHelper r fds then
          (case snd (generateFetchModule env t0 (GetFetchModuleTemplate env)) of
             Inl err \<Rightarrow> Inl (Wrap err ''error generating fetch module'')
           | Inr None \<Rightarrow> Inr \<lparr>File = gs\<rparr>
           | Inr (Some h) \<Rightarrow> Inr \<lparr>File = gs @ [h]\<rparr>)
        else Inr \<lparr>File = gs\<rparr>) \<and>
     fst (Generate env t0 req) =
       concat (map (\<lambda>fd. fst (generateFile t0 fd (GetTemplate env r))) (handed t0 r fds)) @
       (if needsFetchHelper r fds then fst (generateFetchModule env t0 (GetFetchModuleTemplate env))
        else [])"
proof -
  let ?t = "t0\<lparr>Registry := r\<rparr>"
  have gf: "generateFile ?t = generateFile t0"
    by (intro ext) (rule generateFile_indep)
  have h: "handed ?t (Registry ?t) fds = handed t0 r fds" by (simp add: handed_def)
  from generateFiles_ok[of ?t fds "GetTemplate env r"] assms(2) obtain tr gs where
    g: "generateFiles ?t (GetTemplate env r) fds [] False = (tr, Inr (gs, needsFetchHelper r fds))"
    and gs: "map Inr gs = map (\<lambda>fd. snd (generateFile t0 fd (GetTemplate env r))) (handed t0 r fds)"
    unfolding gf h by auto
  from generateFiles_Inr[OF g] have tr:
    "tr = concat (map (\<lambda>fd. fst (generateFile t0 fd (GetTemplate env r))) (handed t0 r fds))"
    unfolding gf by (simp add: handed_def)
  have "snd (Generate env t0 req) =
       (if needsFetchHelper r fds then
          (case snd (generateFetchModule env t0 (GetFetchModuleTemplate env)) of
             Inl err \<Rightarrow> Inl (Wrap err ''error generating fetch module'')
           | Inr None \<Rightarrow> Inr \<lparr>File = gs\<rparr>
           | Inr (Some h) \<Rightarrow> Inr \<lparr>File = gs @ [h]\<rparr>)
        else Inr \<lparr>File = gs\<rparr>)"
    using Generate_unfold[OF assms(1) g]
    by (auto split: prod.splits sum.splits option.splits)
  moreover have "fst (Generate env t0 req) = tr @
       (if needsFetchHelper r fds then fst (generateFetchModule env t0 (GetFetchModuleTemplate env))
        else [])"
    using Generate_unfold[OF assms(1) g]
    by (auto split: prod.splits sum.splits option.splits)
  ultimately show ?thesis using gs tr by blast
qed

lemma Generate_entry:
  assumes "snd (Generate env t0 req) = Inr resp"
    and "Analyse env (Registry t0) req = Inr (r, fds)"
  shows "length (selectedFiles r fds) \<le> length (File resp)"
    and "length (File resp) \<le> length (selectedFiles r fds) + 1"
    and "i < length (selectedFiles r fds) \<Longrightarrow>
           snd (generateFile t0 (withStylingCheck t0 (selectedFiles r fds ! i)) (GetTemplate env r))
             = Inr (File resp ! i)"
    and "length (File resp) = length (selectedFiles r fds) + 1 \<Longrightarrow>
           needsFetchHelper r fds \<and>
           snd (generateFetchModule env t0 (GetFetchModuleTemplate env)) = Inr (Some (last (File resp)))"
    and "length (File resp) = length (selectedFiles r fds) \<Longrightarrow> needsFetchHelper r fds \<Longrightarrow>
           snd (generateFetchModule env t0 (GetFetchModuleTemplate env)) = Inr None"
proof -
  from Generate_Inr[OF assms(1)] assms(2) obtain gs where gs:
    "map Inr gs = map (\<lambda>fd. snd (generateFile t0 fd (GetTemplate env r))) (handed t0 r fds)"
    "File resp = gs @ (if needsFetchHelper r fds
                       then (case snd (generateFetchModule env t0 (GetFetchModuleTemplate env)) of
                               Inr (Some h) \<Rightarrow> [h] | _ \<Rightarrow> [])
                       else [])"
    by auto
  have len: "length gs = length (selectedFiles r fds)"
    using arg_cong[OF gs(1), of length] by (simp add: handed_def)
  show "length (selectedFiles r fds) \<le> length (File resp)"
    using gs(2) len by simp
  show "length (File resp) \<le> length (selectedFiles r fds) + 1"
    using gs(2) len by (auto split: sum.splits option.splits)
  show "snd (generateFile t0 (withStylingCheck t0 (selectedFiles r fds ! i)) (GetTemplate env r))
             = Inr (File resp ! i)" if i: "i < length (selectedFiles r fds)"
  proof -
    have "map Inr gs ! i = Inr (gs ! i)" using i len by simp
    moreover have "map (\<lambda>fd. snd (generateFile t0 fd (GetTemplate env r))) (handed t0 r fds) ! i
       = snd (generateFile t0 (withStylingCheck t0 (selectedFiles r fds ! i)) (GetTemplate env r))"
      using i by (simp add: handed_def)
    moreover have "File resp ! i = gs ! i" using gs(2) i len by (simp add: nth_append)
    ultimately show ?thesis using gs(1) by metis
  qed
  show "needsFetchHelper r fds \<and>
           snd (generateFetchModule env t0 (GetFetchModuleTemplate env)) = Inr (Some (last (File resp)))"
    if "length (File resp) = length (selectedFiles r fds) + 1"
    using that gs(2) len by (auto split: sum.splits option.splits if_splits)
  show "snd (generateFetchModule env t0 (GetFetchModuleTemplate env)) = Inr None"
    if h1: "length (File resp) = length (selectedFiles r fds)" and h2: "needsFetchHelper r fds"
  proof -
    have "\<forall>fd \<in> set (handed t0 r fds). \<exists>g. snd (generateFile t0 fd (GetTemplate env r)) = Inr g"
    proof
      fix fd assume "fd \<in> set (handed t0 r fds)"
      then have "snd (generateFile t0 fd (GetTemplate env r)) \<in> set (map Inr gs)"
        unfolding gs(1) by simp
      then show "\<exists>g. snd (generateFile t0 fd (GetTemplate env r)) = Inr g" by auto
    qed
    from Generate_reaches_helper[OF assms(2) this] obtain gs' where
      "snd (Generate env t0 req) =
         (case snd (generateFetchModule env t0 (GetFetchModuleTemplate env)) of
             Inl err \<Rightarrow> Inl (Wrap err ''error generating fetch module'')
           | Inr None \<Rightarrow> Inr \<lparr>File = gs'\<rparr>
           | Inr (Some h) \<Rightarrow> Inr \<lparr>File = gs' @ [h]\<rparr>)"
      using h2 by auto
    with assms(1) have "\<And>err. snd (generateFetchModule env t0 (GetFetchModuleTemplate env)) \<noteq> Inl err"
      by auto
    with h1 h2 gs(2) len show ?thesis
      by (auto split: sum.splits option.splits if_splits)
  qed
qed

lemma fetchRenders_generateFile:
  "fetchRenders (concat (map (\<lambda>fd. fst (generateFile t fd tmpl)) fds)) = 0"
  by (induction fds) (simp_all add: generateFile_trace fetchRenders_def)

lemma ExecuteTemplate_handed:
  assumes "fd \<in> set (selectedFiles r fds)" and "\<not> IsEmpty fd"
  shows "ExecuteTemplate (withStylingCheck t fd) \<in>
           set (concat (map (\<lambda>fd. fst (generateFile t fd tmpl)) (handed t r fds)))"
proof -
  have "withStylingCheck t fd \<in> set (handed t r fds)"
    using assms(1) by (simp add: handed_def)
  moreover have "ExecuteTemplate (withStylingCheck t fd) \<in>
      set (fst (generateFile t (withStylingCheck t fd) tmpl))"
    using assms(2) by (simp add: generateFile_trace)
  ultimately show ?thesis by auto
qed

lemma Generate_fetch_data:
  assumes "ExecuteFetchTemplate d \<in> set (fst (Generate env t0 req))"
  shows "d = fetchModuleData t0"
proof -
  from Generate_trace[of env t0 req] obtain tr1 tr2 where tr:
    "fst (Generate env t0 req) = tr1 @ tr2"
    "\<forall>ev \<in> set tr1. \<exists>fd. \<not> IsEmpty fd \<and> File.EnableStylingCheck fd = EnableStylingCheck t0 \<and>
       ev = ExecuteTemplate fd"
    "tr2 = [] \<or> tr2 = fst (generateFetchModule env t0 (GetFetchModuleTemplate env))"
    by blast
  from generateFetchModule_trace[of env t0 "GetFetchModuleTemplate env"] obtain rest where f:
    "fst (generateFetchModule env t0 (GetFetchModuleTemplate env)) =
       ExecuteFetchTemplate (fetchModuleData t0) # rest"
    "set rest \<subseteq> {Stat (fetchModuleFileName env (Registry t0)),
                   ReadFile (fetchModuleFileName env (Registry t0))}"
    by blast
  from assms tr(1,2) have "ExecuteFetchTemplate d \<in> set tr2" by auto
  with tr(3) f show ?thesis by auto
qed

lemma Generate_helper_entry:
  assumes "snd (Generate env t0 req) = Inr resp"
    and "Analyse env (Registry t0) req = Inr (r, fds)"
    and "length (File resp) = length (selectedFiles r fds) + 1"
  shows "\<exists>w. GetFetchModuleTemplate env (fetchModuleData t0) = Inr w \<and>
           last (File resp) = \<lparr>RespName = fetchModuleFileName env (Registry t0),
                                InsertionPoint = None, Content = TrimSpace w\<rparr>"
  using Generate_entry(4)[OF assms] generateFetchModule_Some by blast

section \<open>The claims\<close>

text \<open>
  C2. A File IR marked empty is emitted as the one fixed statement \<^verbatim>\<open>export default {}\<close>:
  \<^verbatim>\<open>generateFile\<close> returns it whatever the template is, with an empty trace (the
  template is not executed), the content is not the empty string, no run executes the
  file template on an empty File IR, and in a run that returns a response the entry of
  an empty selected File IR holds that statement.
\<close>

theorem generateFile_empty_placeholder:
  assumes "IsEmpty fileData"
  shows "(\<exists>g. generateFile t fileData tmpl = ([], Inr g) \<and> RespName g = TSFileName fileData \<and>
            Content g = ''export default {}'' \<and> Content g \<noteq> []) \<and>
         ExecuteTemplate fileData \<notin> set (fst (Generate env t0 req)) \<and>
         (\<forall>resp r fds i. snd (Generate env t0 req) = Inr resp \<and>
              Analyse env (Registry t0) req = Inr (r, fds) \<and>
              i < length (selectedFiles r fds) \<and> selectedFiles r fds ! i = fileData
            \<longrightarrow> Content (File resp ! i) = ''export default {}'')"
proof (intro conjI allI impI)
  show "\<exists>g. generateFile t fileData tmpl = ([], Inr g) \<and> RespName g = TSFileName fileData \<and>
            Content g = ''export default {}'' \<and> Content g \<noteq> []"
    using assms by (simp add: generateFile_def TrimSpace_placeholder[simplified])
  show "ExecuteTemplate fileData \<notin> set (fst (Generate env t0 req))"
  proof
    assume a: "ExecuteTemplate fileData \<in> set (fst (Generate env t0 req))"
    from Generate_trace[of env t0 req] obtain tr1 tr2 where tr:
      "fst (Generate env t0 req) = tr1 @ tr2"
      "\<forall>ev \<in> set tr1. \<exists>fd. \<not> IsEmpty fd \<and> File.EnableStylingCheck fd = EnableStylingCheck t0 \<and>
         ev = ExecuteTemplate fd"
      "tr2 = [] \<or> tr2 = fst (generateFetchModule env t0 (GetFetchModuleTemplate env))"
      by blast
    from generateFetchModule_trace[of env t0 "GetFetchModuleTemplate env"]
    have "ExecuteTemplate fileData \<notin> set (fst (generateFetchModule env t0 (GetFetchModuleTemplate env)))"
      by auto
    with a tr(1,3) have "ExecuteTemplate fileData \<in> set tr1" by auto
    with tr(2) assms show False by auto
  qed
next
  fix resp r fds i
  assume a: "snd (Generate env t0 req) = Inr resp \<and>
              Analyse env (Registry t0) req = Inr (r, fds) \<and>
              i < length (selectedFiles r fds) \<and> selectedFiles r fds ! i = fileData"
  then have "snd (generateFile t0 (withStylingCheck t0 fileData) (GetTemplate env r)) = Inr (File resp ! i)"
    using Generate_entry(3)[of env t0 req resp r fds i] by auto
  with assms show "Content (File resp ! i) = ''export default {}''"
    by (auto simp: generateFile_Inr)
qed

theorem generateFile_empty_placeholder_witness:
  "IsEmpty exFileE \<and>
   (\<exists>g. generateFile exGenerator exFileE (GetTemplate exEnv exRegistry) = ([], Inr g) \<and>
        RespName g = TSFileName exFileE \<and> Content g = ''export default {}'' \<and> Content g \<noteq> []) \<and>
   ExecuteTemplate exFileE \<notin> set (fst (Generate exEnv exGenerator exRequest)) \<and>
   Content (File exResponse ! 1) = ''export default {}''"
proof -
  have e: "IsEmpty exFileE" by code_simp
  have g: "snd (Generate exEnv exGenerator exRequest) = Inr exResponse" by code_simp
  have a: "Analyse exEnv (Registry exGenerator) exRequest = Inr (exAnalysed, exFiles)"
    by code_simp
  have s: "1 < length (selectedFiles exAnalysed exFiles)"
    "selectedFiles exAnalysed exFiles ! 1 = exFileE"
    by code_simp+
  note w = generateFile_empty_placeholder[OF e, where t = exGenerator
      and tmpl = "GetTemplate exEnv exRegistry" and env = exEnv and ?t0.0 = exGenerator
      and req = exRequest]
  from w have "snd (Generate exEnv exGenerator exRequest) = Inr exResponse \<and>
              Analyse exEnv (Registry exGenerator) exRequest = Inr (exAnalysed, exFiles) \<and>
              1 < length (selectedFiles exAnalysed exFiles) \<and>
              selectedFiles exAnalysed exFiles ! 1 = exFileE
            \<longrightarrow> Content (File exResponse ! 1) = ''export default {}''"
    by blast
  with g a s have "Content (File exResponse ! 1) = ''export default {}''" by blast
  with w e show ?thesis by blast
qed

text \<open>
  C8. For a File IR that is not empty and whose template execution succeeds with the
  text \<open>w\<close>, the entry's content is \<open>TrimSpace w\<close>: \<open>w\<close> is that content between a
  run of white-space runes in front and one behind, and the content neither starts nor
  ends with a white-space rune. In a run that returns a response, this is the content
  of the file's entry.
\<close>

theorem generateFile_content_trimmed:
  assumes "\<not> IsEmpty fileData" and "tmpl fileData = Inr w"
  shows "(\<exists>g ls rs. generateFile t fileData tmpl = ([ExecuteTemplate fileData], Inr g) \<and>
            RespName g = TSFileName fileData \<and> Content g = TrimSpace w \<and>
            set ls \<subseteq> set spaceEncodings \<and> set rs \<subseteq> set spaceEncodings \<and>
            w = concat ls @ Content g @ concat rs \<and>
            leadingSpace (Content g) = None \<and> trailingSpace (Content g) = None) \<and>
         (\<forall>resp r fds i. snd (Generate env t0 req) = Inr resp \<and>
              Analyse env (Registry t0) req = Inr (r, fds) \<and>
              i < length (selectedFiles r fds) \<and>
              withStylingCheck t0 (selectedFiles r fds ! i) = fileData \<and> GetTemplate env r = tmpl
            \<longrightarrow> Content (File resp ! i) = TrimSpace w)"
proof (intro conjI allI impI)
  from TrimSpace_spec[of w] obtain ls rs where sp:
    "set ls \<subseteq> set spaceEncodings" "set rs \<subseteq> set spaceEncodings"
    "w = concat ls @ TrimSpace w @ concat rs"
    "leadingSpace (TrimSpace w) = None" "trailingSpace (TrimSpace w) = None"
    by blast
  let ?g = "\<lparr>RespName = TSFileName fileData, InsertionPoint = None, Content = TrimSpace w\<rparr>"
  have "generateFile t fileData tmpl = ([ExecuteTemplate fileData], Inr ?g)"
    using assms by (simp add: generateFile_def)
  with sp have "generateFile t fileData tmpl = ([ExecuteTemplate fileData], Inr ?g) \<and>
            RespName ?g = TSFileName fileData \<and> Content ?g = TrimSpace w \<and>
            set ls \<subseteq> set spaceEncodings \<and> set rs \<subseteq> set spaceEncodings \<and>
            w = concat ls @ Content ?g @ concat rs \<and>
            leadingSpace (Content ?g) = None \<and> trailingSpace (Content ?g) = None"
    by simp
  then show "\<exists>g ls rs. generateFile t fileData tmpl = ([ExecuteTemplate fileData], Inr g) \<and>
            RespName g = TSFileName fileData \<and> Content g = TrimSpace w \<and>
            set ls \<subseteq> set spaceEncodings \<and> set rs \<subseteq> set spaceEncodings \<and>
            w = concat ls @ Content g @ concat rs \<and>
            leadingSpace (Content g) = None \<and> trailingSpace (Content g) = None"
    by (intro exI)
next
  fix resp r fds i
  assume a: "snd (Generate env t0 req) = Inr resp \<and>
              Analyse env (Registry t0) req = Inr (r, fds) \<and>
              i < length (selectedFiles r fds) \<and>
              withStylingCheck t0 (selectedFiles r fds ! i) = fileData \<and> GetTemplate env r = tmpl"
  then have "snd (generateFile t0 fileData tmpl) = Inr (File resp ! i)"
    using Generate_entry(3)[of env t0 req resp r fds i] by auto
  with assms show "Content (File resp ! i) = TrimSpace w"
    by (auto simp: generateFile_Inr)
qed

theorem generateFile_content_trimmed_witness:
  "\<not> IsEmpty (withStylingCheck exGenerator exFileB) \<and>
   GetTemplate exEnv exAnalysed (withStylingCheck exGenerator exFileB) = Inr ('' // b.proto'' @ [CHR 0x0A]) \<and>
   (\<exists>g ls rs. generateFile exGenerator (withStylingCheck exGenerator exFileB) (GetTemplate exEnv exAnalysed)
               = ([ExecuteTemplate (withStylingCheck exGenerator exFileB)], Inr g) \<and>
      Content g = TrimSpace ('' // b.proto'' @ [CHR 0x0A]) \<and>
      set ls \<subseteq> set spaceEncodings \<and> set rs \<subseteq> set spaceEncodings \<and>
      '' // b.proto'' @ [CHR 0x0A] = concat ls @ Content g @ concat rs \<and>
      leadingSpace (Content g) = None \<and> trailingSpace (Content g) = None) \<and>
   Content (File exResponse ! 0) = TrimSpace ('' // b.proto'' @ [CHR 0x0A]) \<and>
   TrimSpace ('' // b.proto'' @ [CHR 0x0A]) = ''// b.proto''"
proof -
  let ?fd = "withStylingCheck exGenerator exFileB"
  let ?w = "'' // b.proto'' @ [CHR 0x0A]"
  have e: "\<not> IsEmpty ?fd" by code_simp
  have t: "GetTemplate exEnv exAnalysed ?fd = Inr ?w" by code_simp
  have g: "snd (Generate exEnv exGenerator exRequest) = Inr exResponse" by code_simp
  have a: "Analyse exEnv (Registry exGenerator) exRequest = Inr (exAnalysed, exFiles)"
    by code_simp
  have s: "0 < length (selectedFiles exAnalysed exFiles)"
    "withStylingCheck exGenerator (selectedFiles exAnalysed exFiles ! 0) = ?fd"
    by code_simp+
  have v: "TrimSpace ?w = ''// b.proto''" by code_simp
  note w = generateFile_content_trimmed[where fileData = ?fd
      and tmpl = "GetTemplate exEnv exAnalysed" and w = ?w and t = exGenerator and env = exEnv
      and ?t0.0 = exGenerator and req = exRequest, OF e t]
  from w have "snd (Generate exEnv exGenerator exRequest) = Inr exResponse \<and>
              Analyse exEnv (Registry exGenerator) exRequest = Inr (exAnalysed, exFiles) \<and>
              0 < length (selectedFiles exAnalysed exFiles) \<and>
              withStylingCheck exGenerator (selectedFiles exAnalysed exFiles ! 0) = ?fd \<and>
              GetTemplate exEnv exAnalysed = GetTemplate exEnv exAnalysed
            \<longrightarrow> Content (File exResponse ! 0) = TrimSpace ?w"
    by blast
  with g a s have c: "Content (File exResponse ! 0) = TrimSpace ?w" by blast
  from w have "\<exists>g ls rs. generateFile exGenerator ?fd (GetTemplate exEnv exAnalysed)
               = ([ExecuteTemplate ?fd], Inr g) \<and>
      Content g = TrimSpace ?w \<and>
      set ls \<subseteq> set spaceEncodings \<and> set rs \<subseteq> set spaceEncodings \<and>
      ?w = concat ls @ Content g @ concat rs \<and>
      leadingSpace (Content g) = None \<and> trailingSpace (Content g) = None"
    by blast
  with e t c v show ?thesis by blast
qed

text \<open>
  C10. When \<^verbatim>\<open>os.Stat\<close> finds no file at the helper's path and the rendered helper,
  trimmed, is the empty string, \<^verbatim>\<open>generateFetchModule\<close> returns \<^verbatim>\<open>nil, nil\<close>: the
  absent file counts as empty content and equals the rendering. Nothing was read (the
  trace ends with the stat), and a run's response then has the per-proto entries only.
\<close>

theorem generateFetchModule_absent_blank_omitted:
  assumes "tmpl (fetchModuleData t) = Inr w" and "TrimSpace w = []"
    and "os_Stat env (fetchModuleFileName env (Registry t)) = Inl err"
    and "errors_Is err ErrNotExist"
  shows "generateFetchModule env t tmpl =
           ([ExecuteFetchTemplate (fetchModuleData t), Stat (fetchModuleFileName env (Registry t))],
            Inr None) \<and>
         (\<forall>resp r fds. tmpl = GetFetchModuleTemplate env \<and> snd (Generate env t req) = Inr resp \<and>
              Analyse env (Registry t) req = Inr (r, fds)
            \<longrightarrow> length (File resp) = length (selectedFiles r fds))"
proof (intro conjI allI impI)
  show g: "generateFetchModule env t tmpl =
           ([ExecuteFetchTemplate (fetchModuleData t), Stat (fetchModuleFileName env (Registry t))],
            Inr None)"
    using generateFetchModule_absent[where tmpl = tmpl and t = t and env = env, OF assms(1,3,4)]
      assms(2) by simp
  fix resp r fds
  assume a: "tmpl = GetFetchModuleTemplate env \<and> snd (Generate env t req) = Inr resp \<and>
              Analyse env (Registry t) req = Inr (r, fds)"
  then have "length (File resp) \<noteq> length (selectedFiles r fds) + 1"
    using Generate_entry(4)[of env t req resp r fds] g by auto
  moreover have "length (selectedFiles r fds) \<le> length (File resp)"
    "length (File resp) \<le> length (selectedFiles r fds) + 1"
    using a Generate_entry(1,2)[of env t req resp r fds] by auto
  ultimately show "length (File resp) = length (selectedFiles r fds)" by linarith
qed

theorem generateFetchModule_absent_blank_omitted_witness:
  "GetFetchModuleTemplate exEnvBlank (fetchModuleData exGenerator) = Inr ('' '' @ [CHR 0x0A]) \<and>
   TrimSpace ('' '' @ [CHR 0x0A]) = [] \<and>
   os_Stat exEnvBlank (fetchModuleFileName exEnvBlank (Registry exGenerator))
     = Inl (Wrap ErrNotExist ''stat gen/fetch.pb.ts'') \<and>
   errors_Is (Wrap ErrNotExist ''stat gen/fetch.pb.ts'') ErrNotExist \<and>
   generateFetchModule exEnvBlank exGenerator (GetFetchModuleTemplate exEnvBlank) =
     ([ExecuteFetchTemplate (fetchModuleData exGenerator),
       Stat (fetchModuleFileName exEnvBlank (Registry exGenerator))], Inr None) \<and>
   length (File \<lparr>File = [
     \<lparr>RespName = ''b.pb.ts'', InsertionPoint = None, Content = ''// b.proto''\<rparr>,
     \<lparr>RespName = ''e.pb.ts'', InsertionPoint = None, Content = ''export default {}''\<rparr>]\<rparr>)
     = length (selectedFiles exAnalysed exFiles)"
proof -
  let ?resp = "\<lparr>File = [
     \<lparr>RespName = ''b.pb.ts'', InsertionPoint = None, Content = ''// b.proto''\<rparr>,
     \<lparr>RespName = ''e.pb.ts'', InsertionPoint = None, Content = ''export default {}''\<rparr>]\<rparr>"
  have h1: "GetFetchModuleTemplate exEnvBlank (fetchModuleData exGenerator) = Inr ('' '' @ [CHR 0x0A])"
    by code_simp
  have h2: "TrimSpace ('' '' @ [CHR 0x0A]) = []" by code_simp
  have h3: "os_Stat exEnvBlank (fetchModuleFileName exEnvBlank (Registry exGenerator))
     = Inl (Wrap ErrNotExist ''stat gen/fetch.pb.ts'')" by code_simp
  have h4: "errors_Is (Wrap ErrNotExist ''stat gen/fetch.pb.ts'') ErrNotExist" by code_simp
  have g: "snd (Generate exEnvBlank exGenerator exRequest) = Inr ?resp" by code_simp
  have a: "Analyse exEnvBlank (Registry exGenerator) exRequest = Inr (exAnalysed, exFiles)"
    by code_simp
  note w = generateFetchModule_absent_blank_omitted[where tmpl = "GetFetchModuleTemplate exEnvBlank"
      and t = exGenerator and w = "'' '' @ [CHR 0x0A]" and env = exEnvBlank
      and err = "Wrap ErrNotExist ''stat gen/fetch.pb.ts''" and req = exRequest, OF h1 h2 h3 h4]
  from w have "GetFetchModuleTemplate exEnvBlank = GetFetchModuleTemplate exEnvBlank \<and>
      snd (Generate exEnvBlank exGenerator exRequest) = Inr ?resp \<and>
      Analyse exEnvBlank (Registry exGenerator) exRequest = Inr (exAnalysed, exFiles)
     \<longrightarrow> length (File ?resp) = length (selectedFiles exAnalysed exFiles)"
    by blast
  with g a have "length (File ?resp) = length (selectedFiles exAnalysed exFiles)" by blast
  with w h1 h2 h3 h4 show ?thesis by blast
qed

text \<open>
  C3. When the helper file exists and is read, \<^verbatim>\<open>generateFetchModule\<close> returns
  \<^verbatim>\<open>nil, nil\<close> if the content read equals the rendered, trimmed helper content byte
  for byte, and the helper entry (target path, trimmed content) in every other case.
  In a run that needs the helper and returns a response, the response has the
  per-proto entries only in the first case and the helper entry after them in the
  second.
\<close>

theorem generateFetchModule_omits_identical:
  assumes "tmpl (fetchModuleData t) = Inr w"
    and "os_Stat env (fetchModuleFileName env (Registry t)) = Inr stat"
    and "os_ReadFile env (fetchModuleFileName env (Registry t)) = Inr originContent"
  shows "snd (generateFetchModule env t tmpl) =
           (if originContent = TrimSpace w then Inr None
            else Inr (Some \<lparr>RespName = fetchModuleFileName env (Registry t),
                             InsertionPoint = None, Content = TrimSpace w\<rparr>)) \<and>
         (\<forall>resp r fds. tmpl = GetFetchModuleTemplate env \<and> snd (Generate env t req) = Inr resp \<and>
              Analyse env (Registry t) req = Inr (r, fds) \<and> needsFetchHelper r fds
            \<longrightarrow> (if originContent = TrimSpace w
                 then length (File resp) = length (selectedFiles r fds)
                 else length (File resp) = length (selectedFiles r fds) + 1 \<and>
                      last (File resp) = \<lparr>RespName = fetchModuleFileName env (Registry t),
                             InsertionPoint = None, Content = TrimSpace w\<rparr>))"
proof (intro conjI allI impI)
  show g: "snd (generateFetchModule env t tmpl) =
           (if originContent = TrimSpace w then Inr None
            else Inr (Some \<lparr>RespName = fetchModuleFileName env (Registry t),
                             InsertionPoint = None, Content = TrimSpace w\<rparr>))"
    using generateFetchModule_present[where tmpl = tmpl and t = t and env = env, OF assms]
    by simp
  fix resp r fds
  assume a: "tmpl = GetFetchModuleTemplate env \<and> snd (Generate env t req) = Inr resp \<and>
              Analyse env (Registry t) req = Inr (r, fds) \<and> needsFetchHelper r fds"
  note e = Generate_entry[of env t req resp r fds]
  have len: "length (selectedFiles r fds) \<le> length (File resp)"
    "length (File resp) \<le> length (selectedFiles r fds) + 1"
    using a e(1,2) by auto
  show "if originContent = TrimSpace w
        then length (File resp) = length (selectedFiles r fds)
        else length (File resp) = length (selectedFiles r fds) + 1 \<and>
             last (File resp) = \<lparr>RespName = fetchModuleFileName env (Registry t),
                             InsertionPoint = None, Content = TrimSpace w\<rparr>"
  proof (cases "originContent = TrimSpace w")
    case True
    with g a e(4) have "length (File resp) \<noteq> length (selectedFiles r fds) + 1" by auto
    with len True show ?thesis by simp
  next
    case False
    with g a e(5) have "length (File resp) \<noteq> length (selectedFiles r fds)" by auto
    with len have l: "length (File resp) = length (selectedFiles r fds) + 1" by linarith
    with g a e(4) False show ?thesis by auto
  qed
qed

theorem generateFetchModule_omits_identical_witness:
  "GetFetchModuleTemplate exEnvSame (fetchModuleData exGenerator) = Inr (''export {}'' @ [CHR 0x0A]) \<and>
   os_Stat exEnvSame (fetchModuleFileName exEnvSame (Registry exGenerator)) = Inr \<lparr>Size = 9, IsDir = False\<rparr> \<and>
   os_ReadFile exEnvSame (fetchModuleFileName exEnvSame (Registry exGenerator)) = Inr ''export {}'' \<and>
   snd (generateFetchModule exEnvSame exGenerator (GetFetchModuleTemplate exEnvSame)) = Inr None \<and>
   os_ReadFile exEnvDiff (fetchModuleFileName exEnvDiff (Registry exGenerator)) = Inr (''export {}'' @ [CHR 0x0A]) \<and>
   snd (generateFetchModule exEnvDiff exGenerator (GetFetchModuleTemplate exEnvDiff)) =
     Inr (Some \<lparr>RespName = ''gen/fetch.pb.ts'', InsertionPoint = None, Content = ''export {}''\<rparr>)"
proof -
  let ?w = "''export {}'' @ [CHR 0x0A]"
  have s1: "GetFetchModuleTemplate exEnvSame (fetchModuleData exGenerator) = Inr ?w" by code_simp
  have s2: "os_Stat exEnvSame (fetchModuleFileName exEnvSame (Registry exGenerator)) = Inr \<lparr>Size = 9, IsDir = False\<rparr>"
    by code_simp
  have s3: "os_ReadFile exEnvSame (fetchModuleFileName exEnvSame (Registry exGenerator)) = Inr ''export {}''"
    by code_simp
  have d1: "GetFetchModuleTemplate exEnvDiff (fetchModuleData exGenerator) = Inr ?w" by code_simp
  have d2: "os_Stat exEnvDiff (fetchModuleFileName exEnvDiff (Registry exGenerator)) = Inr \<lparr>Size = 10, IsDir = False\<rparr>"
    by code_simp
  have d3: "os_ReadFile exEnvDiff (fetchModuleFileName exEnvDiff (Registry exGenerator)) = Inr ?w"
    by code_simp
  have v: "TrimSpace ?w = ''export {}''" by code_simp
  have p: "fetchModuleFileName exEnvDiff (Registry exGenerator) = ''gen/fetch.pb.ts''" by code_simp
  have ne: "?w \<noteq> ''export {}''" by simp
  note same = generateFetchModule_omits_identical[where tmpl = "GetFetchModuleTemplate exEnvSame"
      and t = exGenerator and env = exEnvSame and w = ?w and originContent = "''export {}''"
      and req = exRequest, OF s1 s2 s3]
  note diff = generateFetchModule_omits_identical[where tmpl = "GetFetchModuleTemplate exEnvDiff"
      and t = exGenerator and env = exEnvDiff and w = ?w and originContent = ?w
      and req = exRequest, OF d1 d2 d3]
  from same v have c1: "snd (generateFetchModule exEnvSame exGenerator (GetFetchModuleTemplate exEnvSame)) = Inr None"
    by simp
  from diff have "snd (generateFetchModule exEnvDiff exGenerator (GetFetchModuleTemplate exEnvDiff)) =
           (if ?w = TrimSpace ?w then Inr None
            else Inr (Some \<lparr>RespName = fetchModuleFileName exEnvDiff (Registry exGenerator),
                             InsertionPoint = None, Content = TrimSpace ?w\<rparr>))"
    by (rule conjunct1)
  then have c2: "snd (generateFetchModule exEnvDiff exGenerator (GetFetchModuleTemplate exEnvDiff)) =
     Inr (Some \<lparr>RespName = ''gen/fetch.pb.ts'', InsertionPoint = None, Content = ''export {}''\<rparr>)"
    unfolding v p using ne by simp
  from s1 s2 s3 c1 d3 c2 show ?thesis by blast
qed

text \<open>
  C4. The generator that \<^verbatim>\<open>New\<close> returns has \<^verbatim>\<open>EnableStylingCheck\<close> set exactly
  when the option map holds \<^verbatim>\<open>"true"\<close> under \<^verbatim>\<open>enable_styling_check\<close>. Every File
  IR a run executes a template on carries the generator's flag, and in a run that
  returns a response each selected, non-empty File IR is handed to the file template as
  it was analysed but for the flag, which is the generator's.
\<close>

theorem New_EnableStylingCheck:
  assumes "New env paramsMap = Inr t"
  shows "(EnableStylingCheck t \<longleftrightarrow> paramsMap ''enable_styling_check'' = Some ''true'') \<and>
         (\<forall>fd. ExecuteTemplate fd \<in> set (fst (Generate env t req)) \<or>
               ExecuteFetchTemplate fd \<in> set (fst (Generate env t req))
            \<longrightarrow> File.EnableStylingCheck fd = EnableStylingCheck t) \<and>
         (\<forall>resp r fds fd. snd (Generate env t req) = Inr resp \<and>
               Analyse env (Registry t) req = Inr (r, fds) \<and>
               fd \<in> set (selectedFiles r fds) \<and> \<not> IsEmpty fd
            \<longrightarrow> ExecuteTemplate (fd\<lparr>File.EnableStylingCheck := EnableStylingCheck t\<rparr>)
                  \<in> set (fst (Generate env t req)))"
proof (intro conjI allI impI)
  show "EnableStylingCheck t \<longleftrightarrow> paramsMap ''enable_styling_check'' = Some ''true''"
    using assms
    by (auto simp: New_def EnableStylingCheckOption_def split: sum.splits option.splits)
next
  fix fd
  assume a: "ExecuteTemplate fd \<in> set (fst (Generate env t req)) \<or>
             ExecuteFetchTemplate fd \<in> set (fst (Generate env t req))"
  from Generate_trace[of env t req] obtain tr1 tr2 where tr:
    "fst (Generate env t req) = tr1 @ tr2"
    "\<forall>ev \<in> set tr1. \<exists>fd. \<not> IsEmpty fd \<and> File.EnableStylingCheck fd = EnableStylingCheck t \<and>
       ev = ExecuteTemplate fd"
    "tr2 = [] \<or> tr2 = fst (generateFetchModule env t (GetFetchModuleTemplate env))"
    by blast
  from generateFetchModule_trace[of env t "GetFetchModuleTemplate env"] obtain rest where f:
    "fst (generateFetchModule env t (GetFetchModuleTemplate env)) =
       ExecuteFetchTemplate (fetchModuleData t) # rest"
    "set rest \<subseteq> {Stat (fetchModuleFileName env (Registry t)),
                   ReadFile (fetchModuleFileName env (Registry t))}"
    by blast
  have d: "File.EnableStylingCheck (fetchModuleData t) = EnableStylingCheck t"
    by (simp add: fetchModuleData_def)
  from a show "File.EnableStylingCheck fd = EnableStylingCheck t"
  proof
    assume "ExecuteTemplate fd \<in> set (fst (Generate env t req))"
    with tr(1,3) f have "ExecuteTemplate fd \<in> set tr1" by auto
    with tr(2) show ?thesis by auto
  next
    assume "ExecuteFetchTemplate fd \<in> set (fst (Generate env t req))"
    with tr(1,2) have "ExecuteFetchTemplate fd \<in> set tr2" by auto
    with tr(3) f have "fd = fetchModuleData t" by auto
    with d show ?thesis by simp
  qed
next
  fix resp r fds fd
  assume a: "snd (Generate env t req) = Inr resp \<and>
               Analyse env (Registry t) req = Inr (r, fds) \<and>
               fd \<in> set (selectedFiles r fds) \<and> \<not> IsEmpty fd"
  with Generate_Inr[of env t req resp] obtain rest where
    "fst (Generate env t req) =
       concat (map (\<lambda>fd. fst (generateFile t fd (GetTemplate env r))) (handed t r fds)) @ rest"
    by auto
  moreover from a have "ExecuteTemplate (withStylingCheck t fd) \<in>
      set (concat (map (\<lambda>fd. fst (generateFile t fd (GetTemplate env r))) (handed t r fds)))"
    by (intro ExecuteTemplate_handed) auto
  ultimately show "ExecuteTemplate (fd\<lparr>File.EnableStylingCheck := EnableStylingCheck t\<rparr>)
                  \<in> set (fst (Generate env t req))"
    by (simp add: withStylingCheck_def)
qed

theorem New_EnableStylingCheck_witness:
  "New exEnv [''enable_styling_check'' \<mapsto> ''true''] = Inr exGenerator \<and>
   EnableStylingCheck exGenerator \<and>
   ExecuteTemplate (exFileB\<lparr>File.EnableStylingCheck := True\<rparr>)
     \<in> set (fst (Generate exEnv exGenerator exRequest)) \<and>
   File.EnableStylingCheck (exFileB\<lparr>File.EnableStylingCheck := True\<rparr>)
     = EnableStylingCheck exGenerator \<and>
   New exEnv [''enable_styling_check'' \<mapsto> ''TRUE'']
     = Inr (exGenerator\<lparr>EnableStylingCheck := False\<rparr>) \<and>
   \<not> EnableStylingCheck (exGenerator\<lparr>EnableStylingCheck := False\<rparr>)"
proof -
  let ?m = "[''enable_styling_check'' \<mapsto> ''true'']"
  let ?m' = "[''enable_styling_check'' \<mapsto> ''TRUE'']"
  have n: "New exEnv ?m = Inr exGenerator"
    by (simp add: New_def exEnv_def exGenerator_def EnableStylingCheckOption_def)
  have n': "New exEnv ?m' = Inr (exGenerator\<lparr>EnableStylingCheck := False\<rparr>)"
    by (simp add: New_def exEnv_def exGenerator_def EnableStylingCheckOption_def)
  have g: "snd (Generate exEnv exGenerator exRequest) = Inr exResponse" by code_simp
  have a: "Analyse exEnv (Registry exGenerator) exRequest = Inr (exAnalysed, exFiles)"
    by code_simp
  have s: "exFileB \<in> set (selectedFiles exAnalysed exFiles)" "\<not> IsEmpty exFileB"
    by code_simp+
  have v: "EnableStylingCheck exGenerator = True" by code_simp
  note w = New_EnableStylingCheck[OF n, where req = exRequest]
  note w' = New_EnableStylingCheck[OF n', where req = exRequest]
  from w have c1: "EnableStylingCheck exGenerator" by simp
  from w' have c2: "\<not> EnableStylingCheck (exGenerator\<lparr>EnableStylingCheck := False\<rparr>)" by simp
  from w have "snd (Generate exEnv exGenerator exRequest) = Inr exResponse \<and>
               Analyse exEnv (Registry exGenerator) exRequest = Inr (exAnalysed, exFiles) \<and>
               exFileB \<in> set (selectedFiles exAnalysed exFiles) \<and> \<not> IsEmpty exFileB
            \<longrightarrow> ExecuteTemplate (exFileB\<lparr>File.EnableStylingCheck := EnableStylingCheck exGenerator\<rparr>)
                  \<in> set (fst (Generate exEnv exGenerator exRequest))"
    by blast
  with g a s have c3: "ExecuteTemplate (exFileB\<lparr>File.EnableStylingCheck := True\<rparr>)
     \<in> set (fst (Generate exEnv exGenerator exRequest))"
    unfolding v by blast
  from w have "ExecuteTemplate (exFileB\<lparr>File.EnableStylingCheck := True\<rparr>) \<in> set (fst (Generate exEnv exGenerator exRequest)) \<or>
               ExecuteFetchTemplate (exFileB\<lparr>File.EnableStylingCheck := True\<rparr>) \<in> set (fst (Generate exEnv exGenerator exRequest))
            \<longrightarrow> File.EnableStylingCheck (exFileB\<lparr>File.EnableStylingCheck := True\<rparr>) = EnableStylingCheck exGenerator"
    by blast
  with c3 have c4: "File.EnableStylingCheck (exFileB\<lparr>File.EnableStylingCheck := True\<rparr>)
     = EnableStylingCheck exGenerator" by blast
  from n c1 c3 c4 n' c2 show ?thesis by blast
qed

text \<open>
  C1. No run executes the helper's template more than once. In a run that returns a
  response, the response is the per-proto entries followed by at most one entry, which
  is the one \<^verbatim>\<open>generateFetchModule\<close> returned; the helper's template is executed
  (once) exactly when some selected File IR has a service with an HTTP-bound method
  (\<open>needsFetchHelper\<close>), and when none has, nothing follows the per-proto entries.
\<close>

theorem Generate_fetch_helper_once:
  "fetchRenders (fst (Generate env t0 req)) \<le> 1 \<and>
   (\<forall>resp. snd (Generate env t0 req) = Inr resp \<longrightarrow>
      (\<exists>r fds gs helper. Analyse env (Registry t0) req = Inr (r, fds) \<and>
          File resp = gs @ helper \<and>
          map Inr gs = map (\<lambda>fd. snd (generateFile t0 fd (GetTemplate env r))) (handed t0 r fds) \<and>
          length helper \<le> 1 \<and>
          (helper = [] \<or> (\<exists>h. helper = [h] \<and>
              snd (generateFetchModule env t0 (GetFetchModuleTemplate env)) = Inr (Some h))) \<and>
          (fetchRenders (fst (Generate env t0 req)) = 1 \<longleftrightarrow> needsFetchHelper r fds) \<and>
          (fetchRenders (fst (Generate env t0 req)) = 0 \<longleftrightarrow> \<not> needsFetchHelper r fds) \<and>
          (\<not> needsFetchHelper r fds \<longrightarrow> helper = [])))"
proof (intro conjI allI impI)
  from Generate_trace[of env t0 req] obtain tr1 tr2 where tr:
    "fst (Generate env t0 req) = tr1 @ tr2"
    "\<forall>ev \<in> set tr1. \<exists>fd. \<not> IsEmpty fd \<and> File.EnableStylingCheck fd = EnableStylingCheck t0 \<and>
       ev = ExecuteTemplate fd"
    "tr2 = [] \<or> tr2 = fst (generateFetchModule env t0 (GetFetchModuleTemplate env))"
    by blast
  have "fetchRenders tr1 = 0" using tr(2) by (intro fetchRenders_files) blast
  moreover have "fetchRenders tr2 \<le> 1"
  proof (cases "tr2 = []")
    case True
    then show ?thesis by (simp add: fetchRenders_def)
  next
    case False
    with tr(3) show ?thesis by (simp add: fetchRenders_generateFetchModule)
  qed
  ultimately show "fetchRenders (fst (Generate env t0 req)) \<le> 1"
    by (simp add: tr(1))
next
  fix resp
  assume a: "snd (Generate env t0 req) = Inr resp"
  let ?fm = "generateFetchModule env t0 (GetFetchModuleTemplate env)"
  from Generate_Inr[OF a] obtain r fds gs where g:
    "Analyse env (Registry t0) req = Inr (r, fds)"
    "map Inr gs = map (\<lambda>fd. snd (generateFile t0 fd (GetTemplate env r))) (handed t0 r fds)"
    "File resp = gs @ (if needsFetchHelper r fds
                       then (case snd ?fm of Inr (Some h) \<Rightarrow> [h] | _ \<Rightarrow> [])
                       else [])"
    "fst (Generate env t0 req) =
       concat (map (\<lambda>fd. fst (generateFile t0 fd (GetTemplate env r))) (handed t0 r fds)) @
       (if needsFetchHelper r fds then fst ?fm else [])"
    by blast
  let ?helper = "if needsFetchHelper r fds
                 then (case snd ?fm of Inr (Some h) \<Rightarrow> [h] | _ \<Rightarrow> [])
                 else []"
  have z: "fetchRenders [] = 0" by (simp add: fetchRenders_def)
  have n: "fetchRenders (fst (Generate env t0 req)) = (if needsFetchHelper r fds then 1 else 0)"
    unfolding g(4)
    by (simp add: fetchRenders_generateFile fetchRenders_generateFetchModule z)
  have "length ?helper \<le> 1" by (auto split: sum.splits option.splits)
  moreover have "?helper = [] \<or> (\<exists>h. ?helper = [h] \<and> snd ?fm = Inr (Some h))"
    by (auto split: sum.splits option.splits)
  moreover have "fetchRenders (fst (Generate env t0 req)) = 1 \<longleftrightarrow> needsFetchHelper r fds"
    using n by simp
  moreover have "fetchRenders (fst (Generate env t0 req)) = 0 \<longleftrightarrow> \<not> needsFetchHelper r fds"
    using n by simp
  moreover have "\<not> needsFetchHelper r fds \<longrightarrow> ?helper = []" by simp
  ultimately have "Analyse env (Registry t0) req = Inr (r, fds) \<and>
          File resp = gs @ ?helper \<and>
          map Inr gs = map (\<lambda>fd. snd (generateFile t0 fd (GetTemplate env r))) (handed t0 r fds) \<and>
          length ?helper \<le> 1 \<and>
          (?helper = [] \<or> (\<exists>h. ?helper = [h] \<and> snd ?fm = Inr (Some h))) \<and>
          (fetchRenders (fst (Generate env t0 req)) = 1 \<longleftrightarrow> needsFetchHelper r fds) \<and>
          (fetchRenders (fst (Generate env t0 req)) = 0 \<longleftrightarrow> \<not> needsFetchHelper r fds) \<and>
          (\<not> needsFetchHelper r fds \<longrightarrow> ?helper = [])"
    using g(1,2,3) by blast
  then show "\<exists>r fds gs helper. Analyse env (Registry t0) req = Inr (r, fds) \<and>
          File resp = gs @ helper \<and>
          map Inr gs = map (\<lambda>fd. snd (generateFile t0 fd (GetTemplate env r))) (handed t0 r fds) \<and>
          length helper \<le> 1 \<and>
          (helper = [] \<or> (\<exists>h. helper = [h] \<and> snd ?fm = Inr (Some h))) \<and>
          (fetchRenders (fst (Generate env t0 req)) = 1 \<longleftrightarrow> needsFetchHelper r fds) \<and>
          (fetchRenders (fst (Generate env t0 req)) = 0 \<longleftrightarrow> \<not> needsFetchHelper r fds) \<and>
          (\<not> needsFetchHelper r fds \<longrightarrow> helper = [])"
    by (intro exI)
qed

theorem Generate_fetch_helper_once_witness:
  "snd (Generate exEnv exGenerator exRequest) = Inr exResponse \<and>
   needsFetchHelper exAnalysed exFiles \<and>
   fetchRenders (fst (Generate exEnv exGenerator exRequest)) = 1 \<and>
   snd (Generate exEnv exGenerator exRequestE) =
     Inr \<lparr>File = [\<lparr>RespName = ''e.pb.ts'', InsertionPoint = None,
                     Content = ''export default {}''\<rparr>]\<rparr> \<and>
   \<not> needsFetchHelper (exRegistry\<lparr>filesToGenerate := [''e.proto'']\<rparr>) [exFileA, exFileE] \<and>
   fetchRenders (fst (Generate exEnv exGenerator exRequestE)) = 0"
proof -
  let ?respE = "\<lparr>File = [\<lparr>RespName = ''e.pb.ts'', InsertionPoint = None,
                     Content = ''export default {}''\<rparr>]\<rparr>"
  let ?rE = "exRegistry\<lparr>filesToGenerate := [''e.proto'']\<rparr>"
  have g: "snd (Generate exEnv exGenerator exRequest) = Inr exResponse" by code_simp
  have a: "Analyse exEnv (Registry exGenerator) exRequest = Inr (exAnalysed, exFiles)"
    by code_simp
  have n: "needsFetchHelper exAnalysed exFiles" by code_simp
  have gE: "snd (Generate exEnv exGenerator exRequestE) = Inr ?respE" by code_simp
  have aE: "Analyse exEnv (Registry exGenerator) exRequestE = Inr (?rE, [exFileA, exFileE])"
    by code_simp
  have nE: "\<not> needsFetchHelper ?rE [exFileA, exFileE]" by code_simp
  from Generate_fetch_helper_once[of exEnv exGenerator exRequest] g
  obtain r fds where
    "Analyse exEnv (Registry exGenerator) exRequest = Inr (r, fds)"
    "fetchRenders (fst (Generate exEnv exGenerator exRequest)) = 1 \<longleftrightarrow> needsFetchHelper r fds"
    by blast
  with a n have c: "fetchRenders (fst (Generate exEnv exGenerator exRequest)) = 1" by simp
  from Generate_fetch_helper_once[of exEnv exGenerator exRequestE] gE
  obtain r fds where
    "Analyse exEnv (Registry exGenerator) exRequestE = Inr (r, fds)"
    "fetchRenders (fst (Generate exEnv exGenerator exRequestE)) = 0 \<longleftrightarrow> \<not> needsFetchHelper r fds"
    by blast
  with aE nE have cE: "fetchRenders (fst (Generate exEnv exGenerator exRequestE)) = 0" by simp
  from g n c gE nE cE show ?thesis by blast
qed

text \<open>
  C6. In a run that returns a response, the selected File IRs are the analysed File IRs
  whose name is among the request's files to generate, in the order of the analysed
  list; the response starts with one entry for each of them, in that order (the entry
  \<^verbatim>\<open>generateFile\<close> returns for it, under its \<^verbatim>\<open>TSFileName\<close>), and holds at most one
  entry more, which is the helper's. No other File IR has an entry.
\<close>

theorem Generate_selects_files_to_generate:
  assumes "snd (Generate env t0 req) = Inr resp"
  shows "\<exists>r fds. Analyse env (Registry t0) req = Inr (r, fds) \<and>
     selectedFiles r fds = filter (\<lambda>fd. Name fd \<in> set (FileToGenerate req)) fds \<and>
     length (selectedFiles r fds) \<le> length (File resp) \<and>
     length (File resp) \<le> length (selectedFiles r fds) + 1 \<and>
     (\<forall>i < length (selectedFiles r fds).
         RespName (File resp ! i) = TSFileName (selectedFiles r fds ! i) \<and>
         snd (generateFile t0 (withStylingCheck t0 (selectedFiles r fds ! i)) (GetTemplate env r))
           = Inr (File resp ! i)) \<and>
     (length (File resp) = length (selectedFiles r fds) + 1 \<longrightarrow>
         snd (generateFetchModule env t0 (GetFetchModuleTemplate env))
           = Inr (Some (last (File resp))))"
proof -
  from Generate_Inr[OF assms] obtain r fds where
    a: "Analyse env (Registry t0) req = Inr (r, fds)" by blast
  note e = Generate_entry[OF assms a]
  have s: "selectedFiles r fds = filter (\<lambda>fd. Name fd \<in> set (FileToGenerate req)) fds"
    using IsFileToGenerate_Analyse[OF a] by (simp add: selectedFiles_def)
  have i: "RespName (File resp ! i) = TSFileName (selectedFiles r fds ! i) \<and>
         snd (generateFile t0 (withStylingCheck t0 (selectedFiles r fds ! i)) (GetTemplate env r))
           = Inr (File resp ! i)" if "i < length (selectedFiles r fds)" for i
    using e(3)[OF that] by (auto simp: generateFile_Inr)
  from a s e(1,2) i e(4) show ?thesis by blast
qed

theorem Generate_selects_files_to_generate_witness:
  "snd (Generate exEnv exGenerator exRequest) = Inr exResponse \<and>
   filter (\<lambda>fd. Name fd \<in> set (FileToGenerate exRequest)) exFiles = [exFileB, exFileE] \<and>
   RespName (File exResponse ! 0) = TSFileName exFileB \<and>
   RespName (File exResponse ! 1) = TSFileName exFileE \<and>
   length (File exResponse) = 3 \<and>
   snd (generateFetchModule exEnv exGenerator (GetFetchModuleTemplate exEnv))
     = Inr (Some (last (File exResponse)))"
proof -
  have g: "snd (Generate exEnv exGenerator exRequest) = Inr exResponse" by code_simp
  have a: "Analyse exEnv (Registry exGenerator) exRequest = Inr (exAnalysed, exFiles)"
    by code_simp
  have f: "filter (\<lambda>fd. Name fd \<in> set (FileToGenerate exRequest)) exFiles = [exFileB, exFileE]"
    by code_simp
  have l: "length (File exResponse) = 3" by code_simp
  from Generate_selects_files_to_generate[OF g] a obtain
    s: "selectedFiles exAnalysed exFiles
          = filter (\<lambda>fd. Name fd \<in> set (FileToGenerate exRequest)) exFiles"
    and i: "\<forall>i < length (selectedFiles exAnalysed exFiles).
         RespName (File exResponse ! i) = TSFileName (selectedFiles exAnalysed exFiles ! i)"
    and h: "length (File exResponse) = length (selectedFiles exAnalysed exFiles) + 1 \<longrightarrow>
         snd (generateFetchModule exEnv exGenerator (GetFetchModuleTemplate exEnv))
           = Inr (Some (last (File exResponse)))"
    by auto
  have sel: "selectedFiles exAnalysed exFiles = [exFileB, exFileE]" using s f by simp
  from i have "RespName (File exResponse ! 0) = TSFileName exFileB"
    "RespName (File exResponse ! 1) = TSFileName exFileE"
    unfolding sel by simp_all
  moreover from h l have "snd (generateFetchModule exEnv exGenerator (GetFetchModuleTemplate exEnv))
     = Inr (Some (last (File exResponse)))"
    unfolding sel by simp
  ultimately show ?thesis using g f l by blast
qed

text \<open>
  C7. If the template fails on some selected, non-empty File IR, \<^verbatim>\<open>Generate\<close>
  returns an error and no response. The error is the template's error of the first
  File IR (in the order handed) whose rendering fails, wrapped with the message that
  names that file and then with "error generating file".
\<close>

theorem Generate_render_failure_fatal:
  assumes "Analyse env (Registry t0) req = Inr (r, fds)"
    and "fd \<in> set (handed t0 r fds)" and "\<not> IsEmpty fd" and "GetTemplate env r fd = Inl e"
  shows "\<exists>fd' e' pre post. handed t0 r fds = pre @ fd' # post \<and>
     (\<forall>x \<in> set pre. \<exists>g. snd (generateFile t0 x (GetTemplate env r)) = Inr g) \<and>
     \<not> IsEmpty fd' \<and> GetTemplate env r fd' = Inl e' \<and>
     snd (Generate env t0 req) =
       Inl (Wrap (Wrap e' (''error generating ts file for '' @ Name fd')) ''error generating file'') \<and>
     Error (Wrap (Wrap e' (''error generating ts file for '' @ Name fd')) ''error generating file'')
       = ''error generating file: error generating ts file for '' @ Name fd' @ '': '' @ Error e'"
proof -
  let ?t = "t0\<lparr>Registry := r\<rparr>"
  let ?tmpl = "GetTemplate env r"
  have gf: "generateFile ?t = generateFile t0"
    by (intro ext) (rule generateFile_indep)
  have h: "handed ?t (Registry ?t) fds = handed t0 r fds" by (simp add: handed_def)
  obtain tr res where g: "generateFiles ?t ?tmpl fds [] False = (tr, res)"
    using generateFiles_total by blast
  have bad: "snd (generateFile t0 fd ?tmpl) = Inl (Wrap e (''error generating ts file for '' @ Name fd))"
    using assms(3,4) by (simp add: generateFile_Inl)
  show ?thesis
  proof (cases res)
    case (Inr p)
    obtain files need where p: "p = (files, need)" by (cases p)
    from generateFiles_Inr[OF g[unfolded Inr p]] obtain gs where
      "map Inr gs = map (\<lambda>fd. snd (generateFile t0 fd ?tmpl)) (handed t0 r fds)"
      unfolding gf by (auto simp: handed_def)
    then have "snd (generateFile t0 fd ?tmpl) \<in> set (map Inr gs)"
      using assms(2) by simp
    with bad show ?thesis by auto
  next
    case (Inl err)
    from generateFiles_Inl[OF g[unfolded Inl]] obtain pre fd' post e'' where f:
      "handed t0 r fds = pre @ fd' # post"
      "\<forall>x \<in> set pre. \<exists>g. snd (generateFile t0 x ?tmpl) = Inr g"
      "snd (generateFile t0 fd' ?tmpl) = Inl e''" "err = Wrap e'' ''error generating file''"
      unfolding gf by (auto simp: handed_def)
    from f(3) obtain e' where e': "\<not> IsEmpty fd'" "?tmpl fd' = Inl e'"
      "e'' = Wrap e' (''error generating ts file for '' @ Name fd')"
      by (auto simp: generateFile_Inl)
    have "snd (Generate env t0 req) = Inl err"
      using Generate_unfold[OF assms(1) g] Inl by simp
    with f(1,2,4) e' have "handed t0 r fds = pre @ fd' # post \<and>
     (\<forall>x \<in> set pre. \<exists>g. snd (generateFile t0 x ?tmpl) = Inr g) \<and>
     \<not> IsEmpty fd' \<and> ?tmpl fd' = Inl e' \<and>
     snd (Generate env t0 req) =
       Inl (Wrap (Wrap e' (''error generating ts file for '' @ Name fd')) ''error generating file'') \<and>
     Error (Wrap (Wrap e' (''error generating ts file for '' @ Name fd')) ''error generating file'')
       = ''error generating file: error generating ts file for '' @ Name fd' @ '': '' @ Error e'"
      by simp
    then show ?thesis by (intro exI)
  qed
qed

theorem Generate_render_failure_fatal_witness:
  "Analyse exEnvBroken (Registry exGenerator) exRequest = Inr (exAnalysed, exFiles) \<and>
   withStylingCheck exGenerator exFileB \<in> set (handed exGenerator exAnalysed exFiles) \<and>
   \<not> IsEmpty (withStylingCheck exGenerator exFileB) \<and>
   GetTemplate exEnvBroken exAnalysed (withStylingCheck exGenerator exFileB)
     = Inl (ErrorString ''template: no such function'') \<and>
   (\<exists>fd' e'. GetTemplate exEnvBroken exAnalysed fd' = Inl e' \<and>
      snd (Generate exEnvBroken exGenerator exRequest) =
        Inl (Wrap (Wrap e' (''error generating ts file for '' @ Name fd')) ''error generating file'')) \<and>
   snd (Generate exEnvBroken exGenerator exRequest) =
     Inl (Wrap (Wrap (ErrorString ''template: no such function'')
                  ''error generating ts file for b.proto'') ''error generating file'')"
proof -
  let ?fd = "withStylingCheck exGenerator exFileB"
  have a: "Analyse exEnvBroken (Registry exGenerator) exRequest = Inr (exAnalysed, exFiles)"
    by code_simp
  have m: "?fd \<in> set (handed exGenerator exAnalysed exFiles)" by code_simp
  have n: "\<not> IsEmpty ?fd" by code_simp
  have t: "GetTemplate exEnvBroken exAnalysed ?fd = Inl (ErrorString ''template: no such function'')"
    by code_simp
  have v: "snd (Generate exEnvBroken exGenerator exRequest) =
     Inl (Wrap (Wrap (ErrorString ''template: no such function'')
                  ''error generating ts file for b.proto'') ''error generating file'')"
    by code_simp
  from Generate_render_failure_fatal[OF a m n t]
  have "\<exists>fd' e'. GetTemplate exEnvBroken exAnalysed fd' = Inl e' \<and>
      snd (Generate exEnvBroken exGenerator exRequest) =
        Inl (Wrap (Wrap e' (''error generating ts file for '' @ Name fd')) ''error generating file'')"
    by blast
  with a m n t v show ?thesis by blast
qed

text \<open>
  C9. The helper's template is executed on the zero File IR carrying the generator's
  flag, and on nothing of the request: for two generators with the same
  \<^verbatim>\<open>EnableStylingCheck\<close> and any two requests, the template receives the same data in
  both runs, so it renders the same text. Where both responses hold the helper entry,
  its content is that text, trimmed, in both, and its name in each is the
  slash-normalised join of the registry's directory and file name.
\<close>

theorem fetch_module_independent_of_request:
  assumes "EnableStylingCheck t1 = EnableStylingCheck t2"
  shows "(\<forall>d1 d2. ExecuteFetchTemplate d1 \<in> set (fst (Generate env t1 req1)) \<and>
                 ExecuteFetchTemplate d2 \<in> set (fst (Generate env t2 req2))
            \<longrightarrow> d1 = d2 \<and> d1 = zeroFile\<lparr>File.EnableStylingCheck := EnableStylingCheck t1\<rparr>) \<and>
         (\<forall>resp1 r1 fds1 resp2 r2 fds2.
              snd (Generate env t1 req1) = Inr resp1 \<and>
              Analyse env (Registry t1) req1 = Inr (r1, fds1) \<and>
              length (File resp1) = length (selectedFiles r1 fds1) + 1 \<and>
              snd (Generate env t2 req2) = Inr resp2 \<and>
              Analyse env (Registry t2) req2 = Inr (r2, fds2) \<and>
              length (File resp2) = length (selectedFiles r2 fds2) + 1
            \<longrightarrow> Content (last (File resp1)) = Content (last (File resp2)) \<and>
                (\<exists>w. GetFetchModuleTemplate env
                        (zeroFile\<lparr>File.EnableStylingCheck := EnableStylingCheck t1\<rparr>) = Inr w \<and>
                     Content (last (File resp1)) = TrimSpace w) \<and>
                RespName (last (File resp1)) =
                  filepath_ToSlash env (filepath_Join env (FetchModuleDirectory (Registry t1))
                     (FetchModuleFilename (Registry t1))) \<and>
                RespName (last (File resp2)) =
                  filepath_ToSlash env (filepath_Join env (FetchModuleDirectory (Registry t2))
                     (FetchModuleFilename (Registry t2))))"
proof (intro conjI allI impI)
  have d: "fetchModuleData t1 = fetchModuleData t2"
    using assms by (simp add: fetchModuleData_def)
  {
    fix d1 d2
    assume "ExecuteFetchTemplate d1 \<in> set (fst (Generate env t1 req1)) \<and>
            ExecuteFetchTemplate d2 \<in> set (fst (Generate env t2 req2))"
    then have "d1 = fetchModuleData t1" "d2 = fetchModuleData t2"
      using Generate_fetch_data by blast+
    with d show "d1 = d2" "d1 = zeroFile\<lparr>File.EnableStylingCheck := EnableStylingCheck t1\<rparr>"
      by (simp_all add: fetchModuleData_def)
  }
  fix resp1 r1 fds1 resp2 r2 fds2
  assume a: "snd (Generate env t1 req1) = Inr resp1 \<and>
              Analyse env (Registry t1) req1 = Inr (r1, fds1) \<and>
              length (File resp1) = length (selectedFiles r1 fds1) + 1 \<and>
              snd (Generate env t2 req2) = Inr resp2 \<and>
              Analyse env (Registry t2) req2 = Inr (r2, fds2) \<and>
              length (File resp2) = length (selectedFiles r2 fds2) + 1"
  from a Generate_helper_entry[of env t1 req1 resp1 r1 fds1] obtain w1 where w1:
    "GetFetchModuleTemplate env (fetchModuleData t1) = Inr w1"
    "last (File resp1) = \<lparr>RespName = fetchModuleFileName env (Registry t1),
                                InsertionPoint = None, Content = TrimSpace w1\<rparr>"
    by blast
  from a Generate_helper_entry[of env t2 req2 resp2 r2 fds2] obtain w2 where w2:
    "GetFetchModuleTemplate env (fetchModuleData t2) = Inr w2"
    "last (File resp2) = \<lparr>RespName = fetchModuleFileName env (Registry t2),
                                InsertionPoint = None, Content = TrimSpace w2\<rparr>"
    by blast
  from w1(1) w2(1) d have "w1 = w2" by simp
  with w1(2) w2(2) show "Content (last (File resp1)) = Content (last (File resp2))" by simp
  from w1 show "\<exists>w. GetFetchModuleTemplate env
                        (zeroFile\<lparr>File.EnableStylingCheck := EnableStylingCheck t1\<rparr>) = Inr w \<and>
                     Content (last (File resp1)) = TrimSpace w"
    by (simp add: fetchModuleData_def)
  from w1(2) show "RespName (last (File resp1)) =
                  filepath_ToSlash env (filepath_Join env (FetchModuleDirectory (Registry t1))
                     (FetchModuleFilename (Registry t1)))"
    by (simp add: fetchModuleFileName_def)
  from w2(2) show "RespName (last (File resp2)) =
                  filepath_ToSlash env (filepath_Join env (FetchModuleDirectory (Registry t2))
                     (FetchModuleFilename (Registry t2)))"
    by (simp add: fetchModuleFileName_def)
qed

theorem fetch_module_independent_of_request_witness:
  "EnableStylingCheck exGenerator = EnableStylingCheck exGenerator2 \<and>
   snd (Generate exEnv exGenerator exRequest) = Inr exResponse \<and>
   snd (Generate exEnv exGenerator2 exRequestB) =
     Inr \<lparr>File = [\<lparr>RespName = ''b.pb.ts'', InsertionPoint = None, Content = ''// b.proto''\<rparr>,
       \<lparr>RespName = ''out/fetch.pb.ts'', InsertionPoint = None, Content = ''export {}''\<rparr>]\<rparr> \<and>
   Content (last (File exResponse)) =
     Content (last [\<lparr>RespName = ''b.pb.ts'', InsertionPoint = None, Content = ''// b.proto''\<rparr>,
       \<lparr>RespName = ''out/fetch.pb.ts'', InsertionPoint = None, Content = ''export {}''\<rparr>]) \<and>
   RespName (last (File exResponse)) =
     filepath_ToSlash exEnv (filepath_Join exEnv (FetchModuleDirectory (Registry exGenerator))
        (FetchModuleFilename (Registry exGenerator))) \<and>
   filepath_ToSlash exEnv (filepath_Join exEnv (FetchModuleDirectory (Registry exGenerator))
        (FetchModuleFilename (Registry exGenerator))) = ''gen/fetch.pb.ts''"
proof -
  let ?respB = "\<lparr>File = [\<lparr>RespName = ''b.pb.ts'', InsertionPoint = None, Content = ''// b.proto''\<rparr>,
       \<lparr>RespName = ''out/fetch.pb.ts'', InsertionPoint = None, Content = ''export {}''\<rparr>]\<rparr>"
  let ?rB = "exRegistry\<lparr>FetchModuleDirectory := ''out'', filesToGenerate := [''b.proto'']\<rparr>"
  have h: "EnableStylingCheck exGenerator = EnableStylingCheck exGenerator2" by code_simp
  have g: "snd (Generate exEnv exGenerator exRequest) = Inr exResponse" by code_simp
  have a: "Analyse exEnv (Registry exGenerator) exRequest = Inr (exAnalysed, exFiles)"
    by code_simp
  have l: "length (File exResponse) = length (selectedFiles exAnalysed exFiles) + 1"
    by code_simp
  have gB: "snd (Generate exEnv exGenerator2 exRequestB) = Inr ?respB" by code_simp
  have aB: "Analyse exEnv (Registry exGenerator2) exRequestB = Inr (?rB, [exFileA, exFileB])"
    by code_simp
  have lB: "length (File ?respB) = length (selectedFiles ?rB [exFileA, exFileB]) + 1"
    by code_simp
  have p: "filepath_ToSlash exEnv (filepath_Join exEnv (FetchModuleDirectory (Registry exGenerator))
        (FetchModuleFilename (Registry exGenerator))) = ''gen/fetch.pb.ts''"
    by code_simp
  note w = fetch_module_independent_of_request[OF h, where env = exEnv and ?req1.0 = exRequest
      and ?req2.0 = exRequestB]
  from w have "snd (Generate exEnv exGenerator exRequest) = Inr exResponse \<and>
              Analyse exEnv (Registry exGenerator) exRequest = Inr (exAnalysed, exFiles) \<and>
              length (File exResponse) = length (selectedFiles exAnalysed exFiles) + 1 \<and>
              snd (Generate exEnv exGenerator2 exRequestB) = Inr ?respB \<and>
              Analyse exEnv (Registry exGenerator2) exRequestB = Inr (?rB, [exFileA, exFileB]) \<and>
              length (File ?respB) = length (selectedFiles ?rB [exFileA, exFileB]) + 1
            \<longrightarrow> Content (last (File exResponse)) = Content (last (File ?respB)) \<and>
                RespName (last (File exResponse)) =
                  filepath_ToSlash exEnv (filepath_Join exEnv (FetchModuleDirectory (Registry exGenerator))
                     (FetchModuleFilename (Registry exGenerator)))"
    by blast
  with g a l gB aB lB have "Content (last (File exResponse)) = Content (last (File ?respB)) \<and>
                RespName (last (File exResponse)) =
                  filepath_ToSlash exEnv (filepath_Join exEnv (FetchModuleDirectory (Registry exGenerator))
                     (FetchModuleFilename (Registry exGenerator)))"
    by blast
  then have "Content (last (File exResponse)) =
     Content (last [\<lparr>RespName = ''b.pb.ts'', InsertionPoint = None, Content = ''// b.proto''\<rparr>,
       \<lparr>RespName = ''out/fetch.pb.ts'', InsertionPoint = None, Content = ''export {}''\<rparr>])"
    "RespName (last (File exResponse)) =
                  filepath_ToSlash exEnv (filepath_Join exEnv (FetchModuleDirectory (Registry exGenerator))
                     (FetchModuleFilename (Registry exGenerator)))"
    by simp_all
  with h g gB p show ?thesis by blast
qed

text \<open>
  C5, as the code has it. In a run that reaches the helper (the analysis and every
  selected file succeed, the helper is needed and its template renders): if
  \<^verbatim>\<open>os.Stat\<close> of the helper's path fails with an error that is not "does not exist",
  or if \<^verbatim>\<open>os.Stat\<close> succeeds and \<^verbatim>\<open>os.ReadFile\<close> fails with any error, then
  \<^verbatim>\<open>Generate\<close> returns that error, wrapped, and no response; if \<^verbatim>\<open>os.Stat\<close> fails
  with "does not exist", \<^verbatim>\<open>Generate\<close> returns a response.
\<close>

theorem helper_probe_failure_fatal:
  assumes "Analyse env (Registry t0) req = Inr (r, fds)"
    and "\<forall>fd \<in> set (handed t0 r fds). \<exists>g. snd (generateFile t0 fd (GetTemplate env r)) = Inr g"
    and "needsFetchHelper r fds"
    and "GetFetchModuleTemplate env (fetchModuleData t0) = Inr w"
  shows "(\<forall>err. os_Stat env (fetchModuleFileName env (Registry t0)) = Inl err \<and>
               \<not> errors_Is err ErrNotExist
            \<longrightarrow> snd (Generate env t0 req) = Inl (Wrap err ''error generating fetch module'')) \<and>
         (\<forall>stat err. os_Stat env (fetchModuleFileName env (Registry t0)) = Inr stat \<and>
               os_ReadFile env (fetchModuleFileName env (Registry t0)) = Inl err
            \<longrightarrow> snd (Generate env t0 req) = Inl (Wrap err ''error generating fetch module'')) \<and>
         (\<forall>err. os_Stat env (fetchModuleFileName env (Registry t0)) = Inl err \<and>
               errors_Is err ErrNotExist
            \<longrightarrow> (\<exists>resp. snd (Generate env t0 req) = Inr resp))"
proof -
  let ?fm = "generateFetchModule env t0 (GetFetchModuleTemplate env)"
  from Generate_reaches_helper[OF assms(1,2)] assms(3) obtain gs where g:
    "snd (Generate env t0 req) =
       (case snd ?fm of
             Inl err \<Rightarrow> Inl (Wrap err ''error generating fetch module'')
           | Inr None \<Rightarrow> Inr \<lparr>File = gs\<rparr>
           | Inr (Some h) \<Rightarrow> Inr \<lparr>File = gs @ [h]\<rparr>)"
    by auto
  have 1: "snd (Generate env t0 req) = Inl (Wrap err ''error generating fetch module'')"
    if "os_Stat env (fetchModuleFileName env (Registry t0)) = Inl err \<and>
        \<not> errors_Is err ErrNotExist" for err
    using that g
      generateFetchModule_fail_stat[where tmpl = "GetFetchModuleTemplate env" and t = t0
        and env = env, OF assms(4)]
    by simp
  have 2: "snd (Generate env t0 req) = Inl (Wrap err ''error generating fetch module'')"
    if "os_Stat env (fetchModuleFileName env (Registry t0)) = Inr stat \<and>
        os_ReadFile env (fetchModuleFileName env (Registry t0)) = Inl err" for stat err
    using that g
      generateFetchModule_fail_read[where tmpl = "GetFetchModuleTemplate env" and t = t0
        and env = env, OF assms(4)]
    by simp
  have 3: "\<exists>resp. snd (Generate env t0 req) = Inr resp"
    if "os_Stat env (fetchModuleFileName env (Registry t0)) = Inl err \<and>
        errors_Is err ErrNotExist" for err
    using that g
      generateFetchModule_absent[where tmpl = "GetFetchModuleTemplate env" and t = t0
        and env = env, OF assms(4)]
    by (cases "[] = TrimSpace w") simp_all
  from 1 2 3 show ?thesis by blast
qed

theorem helper_probe_failure_fatal_witness:
  "Analyse exEnv (Registry exGenerator) exRequest = Inr (exAnalysed, exFiles) \<and>
   needsFetchHelper exAnalysed exFiles \<and>
   GetFetchModuleTemplate exEnv (fetchModuleData exGenerator) = Inr (''export {}'' @ [CHR 0x0A]) \<and>
   os_Stat exEnvDenied (fetchModuleFileName exEnvDenied (Registry exGenerator))
     = Inl (Wrap (ErrorString ''permission denied'') ''stat gen/fetch.pb.ts'') \<and>
   \<not> errors_Is (Wrap (ErrorString ''permission denied'') ''stat gen/fetch.pb.ts'') ErrNotExist \<and>
   snd (Generate exEnvDenied exGenerator exRequest) =
     Inl (Wrap (Wrap (ErrorString ''permission denied'') ''stat gen/fetch.pb.ts'')
            ''error generating fetch module'') \<and>
   os_Stat exEnv (fetchModuleFileName exEnv (Registry exGenerator))
     = Inl (Wrap ErrNotExist ''stat gen/fetch.pb.ts'') \<and>
   errors_Is (Wrap ErrNotExist ''stat gen/fetch.pb.ts'') ErrNotExist \<and>
   (\<exists>resp. snd (Generate exEnv exGenerator exRequest) = Inr resp) \<and>
   os_Stat exEnvGone (fetchModuleFileName exEnvGone (Registry exGenerator))
     = Inr \<lparr>Size = 9, IsDir = False\<rparr> \<and>
   os_ReadFile exEnvGone (fetchModuleFileName exEnvGone (Registry exGenerator))
     = Inl (Wrap ErrNotExist ''open gen/fetch.pb.ts'') \<and>
   snd (Generate exEnvGone exGenerator exRequest) =
     Inl (Wrap (Wrap ErrNotExist ''open gen/fetch.pb.ts'') ''error generating fetch module'')"
proof -
  let ?w = "''export {}'' @ [CHR 0x0A]"
  let ?B = "withStylingCheck exGenerator exFileB"
  let ?E = "withStylingCheck exGenerator exFileE"
  have hd: "handed exGenerator exAnalysed exFiles = [?B, ?E]" by code_simp
  have n: "needsFetchHelper exAnalysed exFiles" by code_simp
  have a: "Analyse exEnv (Registry exGenerator) exRequest = Inr (exAnalysed, exFiles)"
    by code_simp
  have f: "snd (generateFile exGenerator ?B (GetTemplate exEnv exAnalysed)) =
             Inr \<lparr>RespName = ''b.pb.ts'', InsertionPoint = None, Content = ''// b.proto''\<rparr>"
    "snd (generateFile exGenerator ?E (GetTemplate exEnv exAnalysed)) =
             Inr \<lparr>RespName = ''e.pb.ts'', InsertionPoint = None, Content = ''export default {}''\<rparr>"
    by code_simp+
  have ok: "\<forall>fd \<in> set (handed exGenerator exAnalysed exFiles).
              \<exists>g. snd (generateFile exGenerator fd (GetTemplate exEnv exAnalysed)) = Inr g"
    unfolding hd using f by simp
  have t: "GetFetchModuleTemplate exEnv (fetchModuleData exGenerator) = Inr ?w" by code_simp
  have s: "os_Stat exEnv (fetchModuleFileName exEnv (Registry exGenerator))
     = Inl (Wrap ErrNotExist ''stat gen/fetch.pb.ts'')" by code_simp
  have i: "errors_Is (Wrap ErrNotExist ''stat gen/fetch.pb.ts'') ErrNotExist" by code_simp
  from helper_probe_failure_fatal[OF a ok n t] s i
  have c1: "\<exists>resp. snd (Generate exEnv exGenerator exRequest) = Inr resp" by blast
  have aD: "Analyse exEnvDenied (Registry exGenerator) exRequest = Inr (exAnalysed, exFiles)"
    by code_simp
  have fD: "snd (generateFile exGenerator ?B (GetTemplate exEnvDenied exAnalysed)) =
             Inr \<lparr>RespName = ''b.pb.ts'', InsertionPoint = None, Content = ''// b.proto''\<rparr>"
    "snd (generateFile exGenerator ?E (GetTemplate exEnvDenied exAnalysed)) =
             Inr \<lparr>RespName = ''e.pb.ts'', InsertionPoint = None, Content = ''export default {}''\<rparr>"
    by code_simp+
  have okD: "\<forall>fd \<in> set (handed exGenerator exAnalysed exFiles).
              \<exists>g. snd (generateFile exGenerator fd (GetTemplate exEnvDenied exAnalysed)) = Inr g"
    unfolding hd using fD by simp
  have tD: "GetFetchModuleTemplate exEnvDenied (fetchModuleData exGenerator) = Inr ?w" by code_simp
  have sD: "os_Stat exEnvDenied (fetchModuleFileName exEnvDenied (Registry exGenerator))
     = Inl (Wrap (ErrorString ''permission denied'') ''stat gen/fetch.pb.ts'')" by code_simp
  have iD: "\<not> errors_Is (Wrap (ErrorString ''permission denied'') ''stat gen/fetch.pb.ts'') ErrNotExist"
    by code_simp
  from helper_probe_failure_fatal[OF aD okD n tD] sD iD
  have c2: "snd (Generate exEnvDenied exGenerator exRequest) =
     Inl (Wrap (Wrap (ErrorString ''permission denied'') ''stat gen/fetch.pb.ts'')
            ''error generating fetch module'')" by blast
  have aG: "Analyse exEnvGone (Registry exGenerator) exRequest = Inr (exAnalysed, exFiles)"
    by code_simp
  have fG: "snd (generateFile exGenerator ?B (GetTemplate exEnvGone exAnalysed)) =
             Inr \<lparr>RespName = ''b.pb.ts'', InsertionPoint = None, Content = ''// b.proto''\<rparr>"
    "snd (generateFile exGenerator ?E (GetTemplate exEnvGone exAnalysed)) =
             Inr \<lparr>RespName = ''e.pb.ts'', InsertionPoint = None, Content = ''export default {}''\<rparr>"
    by code_simp+
  have okG: "\<forall>fd \<in> set (handed exGenerator exAnalysed exFiles).
              \<exists>g. snd (generateFile exGenerator fd (GetTemplate exEnvGone exAnalysed)) = Inr g"
    unfolding hd using fG by simp
  have tG: "GetFetchModuleTemplate exEnvGone (fetchModuleData exGenerator) = Inr ?w" by code_simp
  have sG: "os_Stat exEnvGone (fetchModuleFileName exEnvGone (Registry exGenerator))
     = Inr \<lparr>Size = 9, IsDir = False\<rparr>" by code_simp
  have rG: "os_ReadFile exEnvGone (fetchModuleFileName exEnvGone (Registry exGenerator))
     = Inl (Wrap ErrNotExist ''open gen/fetch.pb.ts'')" by code_simp
  from helper_probe_failure_fatal[OF aG okG n tG] sG rG
  have c3: "snd (Generate exEnvGone exGenerator exRequest) =
     Inl (Wrap (Wrap ErrNotExist ''open gen/fetch.pb.ts'') ''error generating fetch module'')"
    by blast
  from a n t sD iD c2 s i c1 sG rG c3 show ?thesis by blast
qed

text \<open>
  C5 as it is stated fails where the file is there for \<^verbatim>\<open>os.Stat\<close> and gone for
  \<^verbatim>\<open>os.ReadFile\<close>: the read's result is "does not exist" (\<^verbatim>\<open>errors.Is\<close> holds), and
  the run fails all the same.
\<close>

theorem helper_probe_read_not_exist_counterexample:
  "os_Stat exEnvGone (fetchModuleFileName exEnvGone (Registry exGenerator))
     = Inr \<lparr>Size = 9, IsDir = False\<rparr> \<and>
   os_ReadFile exEnvGone (fetchModuleFileName exEnvGone (Registry exGenerator))
     = Inl (Wrap ErrNotExist ''open gen/fetch.pb.ts'') \<and>
   errors_Is (Wrap ErrNotExist ''open gen/fetch.pb.ts'') ErrNotExist \<and>
   snd (Generate exEnvGone exGenerator exRequest) =
     Inl (Wrap (Wrap ErrNotExist ''open gen/fetch.pb.ts'') ''error generating fetch module'')"
  by code_simp

end
